theory Spec2Isabelle
  imports Complex_Main
begin

section \<open>Strings and numbers as the TypeScript source uses them\<close>

text \<open>
  A JavaScript string is modelled as a \<^typ>\<open>string\<close> (a list of characters).
  \<open>String.prototype.toLowerCase\<close> is modelled on the ASCII letters, which is where all
  the patterns searched for by the source live; \<open>String.prototype.includes\<close> is the
  contiguous-substring test; \<open>Array.prototype.join\<close> interleaves a separator.
  A JavaScript \<open>number\<close> that the source divides (a confidence) is a \<^typ>\<open>rat\<close>:
  the scores are small integers, so the double the source computes is the correctly
  rounded quotient and compares with the thresholds 0.8, 0.5 and 0.3 as the exact
  quotient does. A number that counts (an attempt, a budget, a status code) is an
  \<^typ>\<open>int\<close> or a \<^typ>\<open>nat\<close>.
\<close>

definition lowerChar :: "char \<Rightarrow> char" where
  "lowerChar c =
     (case map_of (zip ''ABCDEFGHIJKLMNOPQRSTUVWXYZ'' ''abcdefghijklmnopqrstuvwxyz'') c of
        None \<Rightarrow> c
      | Some d \<Rightarrow> d)"

definition toLowerCase :: "string \<Rightarrow> string" where
  "toLowerCase s = map lowerChar s"

fun startsWith :: "string \<Rightarrow> string \<Rightarrow> bool" where
  "startsWith s [] = True"
| "startsWith [] (p # ps) = False"
| "startsWith (c # cs) (p # ps) = (c = p \<and> startsWith cs ps)"

fun includes_str :: "string \<Rightarrow> string \<Rightarrow> bool" where
  "includes_str [] p = (p = [])"
| "includes_str (c # cs) p = (startsWith (c # cs) p \<or> includes_str cs p)"

fun join :: "string \<Rightarrow> string list \<Rightarrow> string" where
  "join sep [] = []"
| "join sep [x] = x"
| "join sep (x # y # ys) = x @ sep @ join sep (y # ys)"

definition digitChar :: "nat \<Rightarrow> char" where
  "digitChar d = ''0123456789'' ! (d mod 10)"

function numberToString :: "nat \<Rightarrow> string" where
  "numberToString n =
     (if n < 10 then [digitChar n]
      else numberToString (n div 10) @ [digitChar (n mod 10)])"
  by pat_completeness auto
termination
  by (relation "measure (\<lambda>n. n)") auto

declare numberToString.simps [simp del]

section \<open>Data model (src/agent/types.ts)\<close>

text \<open>
  Of \<open>PageObservation\<close> the fields that the modelled functions read are kept
  (\<open>forms\<close>, \<open>modals\<close> and \<open>toasts\<close> are read by none of them). Optional fields are
  options. Field names that occur in two interfaces carry a suffix in the second.
\<close>

datatype JsError = Error (message: string)

record NetworkError =
  url_n :: string
  method_n :: string
  status :: "nat option"
  error_n :: "string option"

datatype InteractiveElement = InteractiveElement (elem_id: string) (selector: string)

record PageObservation =
  url :: string
  title :: string
  interactiveElements :: "InteractiveElement list"
  loadingIndicators :: bool
  consoleErrors :: "string list"
  networkErrors :: "NetworkError list"
  screenshot :: "string option"
  timestamp :: nat

datatype BugClassification = app_bug | agent_bug | environment_issue | test_issue | unknown

datatype Severity = critical | high | medium | low

record DetectedBug =
  classification :: BugClassification
  confidence :: rat
  title_b :: string
  description :: string
  severity :: Severity
  reproductionSteps :: "string list"
  expectedBehavior :: string
  actualBehavior :: string
  screenshots :: "string list"
  consoleErrors_b :: "string list"
  networkErrors_b :: "NetworkError list"
  url_b :: string
  timestamp_b :: nat
  sessionId :: string

datatype HealingStrategy =
  wait_and_retry | refresh_and_retry | alternative_selector | screenshot_analysis
  | reset_to_known_state

record ScenarioStep =
  name :: string
  goal :: string
  startUrl :: "string option"
  maxAttempts :: "int option"

section \<open>BugDetector: heuristic classification (src/bugs, BugDetector)\<close>

record HeuristicResult =
  classification_h :: BugClassification
  confidence_h :: rat
  indicators :: "string list"

record DiagnosisContext =
  step_c :: ScenarioStep
  error_c :: JsError
  observation_c :: PageObservation
  actionHistory_c :: "string list"

text \<open>The JavaScript truthiness of an optional number.\<close>

definition truthyNum :: "nat option \<Rightarrow> bool" where
  "truthyNum s = (case s of None \<Rightarrow> False | Some n \<Rightarrow> n \<noteq> 0)"

definition statusIn :: "NetworkError \<Rightarrow> nat \<Rightarrow> nat \<Rightarrow> bool" where
  "statusIn e lo hi = (case status e of None \<Rightarrow> False | Some n \<Rightarrow> n \<noteq> 0 \<and> lo \<le> n \<and> n < hi)"

definition statusText :: "NetworkError \<Rightarrow> string" where
  "statusText e = (case status e of None \<Rightarrow> ''undefined'' | Some n \<Rightarrow> numberToString n)"

text \<open>
  Each detector pushes an indicator and adds to its score when a signal fires;
  \<open>signal\<close> is that one step on the pair (indicators, score).
\<close>

definition signal :: "bool \<Rightarrow> string \<Rightarrow> nat \<Rightarrow> string list \<times> nat \<Rightarrow> string list \<times> nat" where
  "signal fired indicator points acc =
     (if fired then (fst acc @ [indicator], snd acc + points) else acc)"

definition isJavaScriptError :: "string \<Rightarrow> bool" where
  "isJavaScriptError e =
     list_ex (\<lambda>pattern. includes_str (toLowerCase e) pattern)
       [''typeerror'', ''referenceerror'', ''syntaxerror'', ''uncaught'', ''unhandled'',
        ''exception'', ''error:'']"

definition isReactError :: "string \<Rightarrow> bool" where
  "isReactError e =
     list_ex (\<lambda>pattern. includes_str (toLowerCase e) pattern)
       [''react'', ''hydration'', ''warning:'', ''each child in a list'',
        ''invalid hook call'', ''cannot update'', ''maximum update depth'']"

definition isNetworkConnectionError :: "NetworkError \<Rightarrow> bool" where
  "isNetworkConnectionError e =
     (case error_n e of
        None \<Rightarrow> False
      | Some t \<Rightarrow>
          if t = [] then False
          else if \<not> truthyNum (status e) then True
          else
            (let lowerError = toLowerCase t in
               includes_str lowerError ''net::'' \<or> includes_str lowerError ''connection'' \<or>
               includes_str lowerError ''timeout'' \<or> includes_str lowerError ''aborted''))"

definition detectAppBugIndicators :: "PageObservation \<Rightarrow> string \<Rightarrow> string list \<times> nat" where
  "detectAppBugIndicators observation errorMessage =
     (let serverErrors = filter (\<lambda>e. statusIn e 500 600) (networkErrors observation);
          jsErrors = filter isJavaScriptError (consoleErrors observation);
          reactErrors = filter isReactError (consoleErrors observation);
          apiErrors = filter (\<lambda>e. statusIn e 400 500 \<and> status e \<noteq> Some 401 \<and> status e \<noteq> Some 403)
                        (networkErrors observation);
          a1 = signal (serverErrors \<noteq> [])
                 (''Server errors (5xx): '' @
                    join '', '' (map (\<lambda>e. statusText e @ '' on '' @ url_n e) serverErrors))
                 3 ([], 0);
          a2 = signal (jsErrors \<noteq> [])
                 (''JavaScript errors: '' @ numberToString (length jsErrors) @ '' found'') 2 a1;
          a3 = signal (reactErrors \<noteq> [])
                 (''React errors: '' @ numberToString (length reactErrors) @ '' found'') 2 a2;
          a4 = signal (apiErrors \<noteq> [])
                 (''API errors (4xx): '' @
                    join '', '' (map (\<lambda>e. statusText e @ '' on '' @ url_n e) apiErrors))
                 2 a3
      in signal (includes_str errorMessage ''undefined is not'' \<or>
                 includes_str errorMessage ''cannot read property'' \<or>
                 includes_str errorMessage ''is not a function'' \<or>
                 includes_str errorMessage ''null reference'')
           ''Error suggests runtime JavaScript error'' 2 a4)"

definition detectAgentBugIndicators :: "PageObservation \<Rightarrow> string \<Rightarrow> string list \<times> nat" where
  "detectAgentBugIndicators observation errorMessage =
     (let notFound = (includes_str errorMessage ''no element'' \<or> includes_str errorMessage ''not found'' \<or>
                      includes_str errorMessage ''unable to find'' \<or>
                      includes_str errorMessage ''could not find'');
          g1 = (if interactiveElements observation \<noteq> []
                then signal notFound
                  ''Element not found but page has interactive elements - possible selector issue''
                  2 ([], 0)
                else signal notFound
                  ''Element not found - page may be empty or still loading'' 1 ([], 0));
          timing = (includes_str errorMessage ''timeout'' \<or> includes_str errorMessage ''waiting for'' \<or>
                    includes_str errorMessage ''timed out'');
          g2 = (if \<not> loadingIndicators observation
                then signal timing
                  ''Timeout without loading indicators - possible timing issue in agent'' 2 g1
                else signal timing ''Timeout with loading indicators - app may be slow'' 1 g1);
          g3 = signal (includes_str errorMessage ''not interactable'' \<or>
                       includes_str errorMessage ''obscured'' \<or> includes_str errorMessage ''covered by'')
                 ''Element not interactable - agent may have selected wrong element or timing issue''
                 2 g2;
          g4 = signal (includes_str errorMessage ''invalid selector'' \<or>
                       includes_str errorMessage ''syntax error'')
                 ''Invalid selector syntax - agent bug in selector generation'' 3 g3
      in signal (includes_str errorMessage ''not attached'' \<or> includes_str errorMessage ''detached'' \<or>
                 includes_str errorMessage ''stale element'')
           ''Element detached - action executed too quickly'' 2 g4)"

definition detectEnvironmentIndicators :: "PageObservation \<Rightarrow> string \<Rightarrow> string list \<times> nat" where
  "detectEnvironmentIndicators observation errorMessage =
     (let networkFailures = filter isNetworkConnectionError (networkErrors observation);
          authErrors = filter (\<lambda>e. status e = Some 401 \<or> status e = Some 403)
                         (networkErrors observation);
          e1 = signal (networkFailures \<noteq> [])
                 (''Network connection errors: '' @ numberToString (length networkFailures) @
                    '' failures'')
                 3 ([], 0);
          e2 = signal (authErrors \<noteq> [])
                 (''Authentication errors: '' @ numberToString (length authErrors) @
                    '' (401/403 responses)'')
                 2 e1;
          e3 = signal (includes_str errorMessage ''econnrefused'' \<or> includes_str errorMessage ''enotfound'' \<or>
                       includes_str errorMessage ''connection refused'' \<or>
                       includes_str errorMessage ''dns'' \<or> includes_str errorMessage ''unreachable'')
                 ''Server unreachable or DNS failure'' 3 e2;
          e4 = signal (includes_str errorMessage ''ssl'' \<or> includes_str errorMessage ''tls'' \<or>
                       includes_str errorMessage ''certificate'')
                 ''SSL/TLS certificate error'' 2 e3
      in signal (includes_str errorMessage ''browser has disconnected'' \<or>
                 includes_str errorMessage ''target closed'' \<or>
                 includes_str errorMessage ''context has been destroyed'')
           ''Browser context error - environment issue'' 2 e4)"

definition analyzeWithHeuristics :: "JsError \<Rightarrow> PageObservation \<Rightarrow> HeuristicResult" where
  "analyzeWithHeuristics err observation =
     (let errorMessage = toLowerCase (message err);
          appBugIndicators = detectAppBugIndicators observation errorMessage;
          agentBugIndicators = detectAgentBugIndicators observation errorMessage;
          envIndicators = detectEnvironmentIndicators observation errorMessage;
          inds = fst appBugIndicators @ fst agentBugIndicators @ fst envIndicators;
          appBugScore = snd appBugIndicators;
          agentBugScore = snd agentBugIndicators;
          envIssueScore = snd envIndicators;
          totalScore = appBugScore + agentBugScore + envIssueScore
      in if totalScore = 0
         then \<lparr>classification_h = unknown, confidence_h = 0, indicators = inds\<rparr>
         else
           (let maxScore = max (max appBugScore agentBugScore) envIssueScore;
                conf = rat_of_nat maxScore / rat_of_nat (totalScore + 1);
                cls = (if maxScore = appBugScore then app_bug
                       else if maxScore = agentBugScore then agent_bug
                       else if maxScore = envIssueScore then environment_issue
                       else unknown)
            in \<lparr>classification_h = cls, confidence_h = conf, indicators = inds\<rparr>))"

text \<open>The three detector scores of a failure, as \<open>analyzeWithHeuristics\<close> computes them.\<close>

definition appScore :: "JsError \<Rightarrow> PageObservation \<Rightarrow> nat" where
  "appScore err observation = snd (detectAppBugIndicators observation (toLowerCase (message err)))"

definition agentScore :: "JsError \<Rightarrow> PageObservation \<Rightarrow> nat" where
  "agentScore err observation =
     snd (detectAgentBugIndicators observation (toLowerCase (message err)))"

definition envScore :: "JsError \<Rightarrow> PageObservation \<Rightarrow> nat" where
  "envScore err observation =
     snd (detectEnvironmentIndicators observation (toLowerCase (message err)))"

section \<open>BugDetector: building and enriching the DetectedBug\<close>

text \<open>
  \<open>new Date()\<close> is a parameter \<open>now\<close> (milliseconds), and the platform's URL parser is a
  parameter \<open>pathname\<close> (the path of a URL, \<open>None\<close> where \<open>new URL\<close> throws). The answer
  of the oracle is a parameter too: the parsed JSON object, or the error raised by the
  request or by the parsing.
\<close>

definition newline :: string where
  "newline = [CHR 0x0A]"

definition truncate :: "string \<Rightarrow> nat \<Rightarrow> string" where
  "truncate str maxLength =
     (if length str \<le> maxLength then str else take (maxLength - 3) str @ ''...'')"

fun splitOn :: "char \<Rightarrow> string \<Rightarrow> string \<Rightarrow> string list" where
  "splitOn sep cur [] = [cur]"
| "splitOn sep cur (c # cs) =
     (if c = sep then cur # splitOn sep [] cs else splitOn sep (cur @ [c]) cs)"

definition extractPageName :: "(string \<Rightarrow> string option) \<Rightarrow> string \<Rightarrow> string" where
  "extractPageName pathname u =
     (case pathname u of
        None \<Rightarrow> ''page''
      | Some path \<Rightarrow>
          if path = ''/'' \<or> path = [] then ''home page''
          else
            (let segments = filter (\<lambda>seg. seg \<noteq> []) (splitOn (CHR ''/'') [] path)
             in if segments = [] \<or> last segments = [] then ''page'' else last segments))"

definition classificationText :: "BugClassification \<Rightarrow> string" where
  "classificationText c =
     (case c of app_bug \<Rightarrow> ''app bug'' | agent_bug \<Rightarrow> ''agent bug''
      | environment_issue \<Rightarrow> ''environment issue'' | test_issue \<Rightarrow> ''test issue''
      | unknown \<Rightarrow> ''unknown'')"

definition determineSeverity :: "BugClassification \<Rightarrow> string list \<Rightarrow> Severity" where
  "determineSeverity cls inds =
     (let hasServerError = list_ex (\<lambda>i. includes_str i ''5xx'' \<or> includes_str i ''Server error'') inds;
          hasJsError = list_ex (\<lambda>i. includes_str i ''JavaScript error'' \<or>
                                     includes_str i ''React error'') inds
      in if cls = app_bug then
           (if hasServerError then critical else if hasJsError then high else medium)
         else if cls = agent_bug then
           (if list_ex (\<lambda>i. includes_str i ''Invalid selector'') inds then high else medium)
         else if cls = environment_issue then
           (if list_ex (\<lambda>i. includes_str i ''unreachable'' \<or> includes_str i ''connection'') inds
            then high else medium)
         else low)"

definition generateTitle ::
  "(string \<Rightarrow> string option) \<Rightarrow> BugClassification \<Rightarrow> JsError \<Rightarrow> PageObservation \<Rightarrow> string" where
  "generateTitle pathname cls err observation =
     (let page = extractPageName pathname (url observation) in
      case cls of
        app_bug \<Rightarrow>
          (let serverErrors = filter (\<lambda>e. case status e of None \<Rightarrow> False
                                            | Some n \<Rightarrow> n \<noteq> 0 \<and> 500 \<le> n)
                                (networkErrors observation)
           in if serverErrors \<noteq> []
              then ''Server error '' @ statusText (hd serverErrors) @ '' on '' @ page
              else if consoleErrors observation \<noteq> [] then ''JavaScript error on '' @ page
              else ''Application error on '' @ page @ '': '' @ truncate (message err) 50)
      | agent_bug \<Rightarrow>
          if includes_str (toLowerCase (message err)) ''selector''
          then ''Selector issue on '' @ page
          else if includes_str (toLowerCase (message err)) ''timeout''
          then ''Timing issue on '' @ page
          else ''Agent error on '' @ page @ '': '' @ truncate (message err) 50
      | environment_issue \<Rightarrow>
          if includes_str (toLowerCase (message err)) ''connection''
          then ''Network connectivity issue''
          else if list_ex (\<lambda>e. status e = Some 401 \<or> status e = Some 403)
                    (networkErrors observation)
          then ''Authentication expired''
          else ''Environment issue: '' @ truncate (message err) 50
      | test_issue \<Rightarrow> ''Unknown failure on '' @ page @ '': '' @ truncate (message err) 50
      | unknown \<Rightarrow> ''Unknown failure on '' @ page @ '': '' @ truncate (message err) 50)"

definition indicatorLines :: "string list \<Rightarrow> string" where
  "indicatorLines inds = join newline (map (\<lambda>i. ''- '' @ i) inds)"

definition createBugFromHeuristics ::
  "(string \<Rightarrow> string option) \<Rightarrow> nat \<Rightarrow> DiagnosisContext \<Rightarrow> HeuristicResult \<Rightarrow> DetectedBug" where
  "createBugFromHeuristics pathname now context heuristic =
     (let step = step_c context; err = error_c context; observation = observation_c context in
      \<lparr>classification = classification_h heuristic,
       confidence = confidence_h heuristic,
       title_b = generateTitle pathname (classification_h heuristic) err observation,
       description =
         ''Heuristic analysis detected '' @ classificationText (classification_h heuristic) @
         ''.'' @ newline @ newline @ ''Indicators:'' @ newline @
         indicatorLines (indicators heuristic),
       severity = determineSeverity (classification_h heuristic) (indicators heuristic),
       reproductionSteps =
         [''Navigate to '' @ url observation] @
         drop (length (actionHistory_c context) - 5) (actionHistory_c context) @
         [''Attempt: '' @ goal step, ''Error: '' @ message err],
       expectedBehavior = goal step,
       actualBehavior = message err,
       screenshots = [],
       consoleErrors_b = [],
       networkErrors_b = [],
       url_b = [],
       timestamp_b = now,
       sessionId = []\<rparr>)"

definition enrichBug :: "DetectedBug \<Rightarrow> DiagnosisContext \<Rightarrow> nat \<Rightarrow> DetectedBug" where
  "enrichBug bug context now =
     (let observation = observation_c context in
      bug\<lparr>url_b := url observation,
          screenshots := (case screenshot observation of
                            None \<Rightarrow> []
                          | Some shot \<Rightarrow> if shot = [] then [] else [shot]),
          consoleErrors_b := consoleErrors observation,
          networkErrors_b := networkErrors observation,
          timestamp_b := now,
          sessionId := []\<rparr>)"

text \<open>
  \<open>ClaudeClient.diagnoseBug\<close>: the request and the parsing may raise; otherwise the
  parsed object is returned with six fields overwritten (\<open>parseDiagnosis\<close>). Nothing
  else of the parsed object is touched.
\<close>

definition parseDiagnosis :: "DetectedBug \<Rightarrow> nat \<Rightarrow> DetectedBug" where
  "parseDiagnosis parsed now =
     parsed\<lparr>screenshots := [], consoleErrors_b := [], networkErrors_b := [], url_b := [],
            timestamp_b := now, sessionId := []\<rparr>"

definition claude_diagnoseBug :: "JsError + DetectedBug \<Rightarrow> nat \<Rightarrow> JsError + DetectedBug" where
  "claude_diagnoseBug response now =
     (case response of Inl e \<Rightarrow> Inl e | Inr parsed \<Rightarrow> Inr (parseDiagnosis parsed now))"

definition CONFIDENCE_THRESHOLD_HIGH :: rat where
  "CONFIDENCE_THRESHOLD_HIGH = 8 / 10"

definition CONFIDENCE_THRESHOLD_LOW :: rat where
  "CONFIDENCE_THRESHOLD_LOW = 3 / 10"

definition diagnose ::
  "(string \<Rightarrow> string option) \<Rightarrow> (JsError + DetectedBug) \<Rightarrow> nat \<Rightarrow> DiagnosisContext
     \<Rightarrow> JsError + DetectedBug" where
  "diagnose pathname response now context =
     (let heuristic = analyzeWithHeuristics (error_c context) (observation_c context) in
      if CONFIDENCE_THRESHOLD_HIGH \<le> confidence_h heuristic
      then Inr (enrichBug (createBugFromHeuristics pathname now context heuristic) context now)
      else
        (case claude_diagnoseBug response now of
           Inl e \<Rightarrow> Inl e
         | Inr bug \<Rightarrow>
             Inr (enrichBug
                    (if indicators heuristic \<noteq> [] \<and>
                        CONFIDENCE_THRESHOLD_LOW \<le> confidence_h heuristic
                     then bug\<lparr>description :=
                            description bug @ newline @ newline @ ''Heuristic indicators:'' @
                            newline @ indicatorLines (indicators heuristic)\<rparr>
                     else bug)
                    context now)))"

section \<open>Healing strategy selection (SelfHealer.selectStrategy, Agent.selectHealingStrategy)\<close>

text \<open>
  The repository holds two selection functions. \<open>SelfHealer.selectStrategy\<close> is static
  and called by nothing under \<open>src\<close>; \<open>Agent.selectHealingStrategy\<close> is the private
  method that \<open>Agent.handleStepFailure\<close>, and so the step runner, calls.
\<close>

definition selectStrategy :: "JsError \<Rightarrow> int \<Rightarrow> HealingStrategy" where
  "selectStrategy err attempt =
     (let errorMessage = toLowerCase (message err) in
      if attempt = 1 then wait_and_retry
      else if attempt = 2 then
        (if includes_str errorMessage ''timeout'' \<or> includes_str errorMessage ''not found'' \<or>
            includes_str errorMessage ''no element'' \<or> includes_str errorMessage ''locator''
         then alternative_selector
         else if includes_str errorMessage ''network'' \<or> includes_str errorMessage ''loading'' \<or>
                 includes_str errorMessage ''hydrat'' \<or> includes_str errorMessage ''navigation''
         then refresh_and_retry
         else screenshot_analysis)
      else reset_to_known_state)"

definition selectHealingStrategy :: "JsError \<Rightarrow> int \<Rightarrow> HealingStrategy" where
  "selectHealingStrategy err attempt =
     (let errorMessage = toLowerCase (message err) in
      if attempt = 1 then wait_and_retry
      else if attempt = 2 then
        (if includes_str errorMessage ''timeout'' \<or> includes_str errorMessage ''not found'' \<or>
            includes_str errorMessage ''no element''
         then alternative_selector
         else if includes_str errorMessage ''network'' \<or> includes_str errorMessage ''loading'' \<or>
                 includes_str errorMessage ''hydrat''
         then refresh_and_retry
         else screenshot_analysis)
      else reset_to_known_state)"

section \<open>Agent.executeStep: the attempt loop\<close>

text \<open>
  The collaborators of one step execution are oracles indexed by the attempt number
  (each call site of the loop is reached at most once per attempt):
  \<^item> \<open>tryBlock n\<close> is the outcome of the \<open>try\<close> block of attempt \<open>n\<close> (navigate, observe,
    plan, execute, validate): \<open>None\<close> when validation passed, \<open>Some e\<close> when any of its
    calls raised \<open>e\<close> or validation failed with reason \<open>e\<close>; both reach the same
    \<open>catch\<close>;
  \<^item> \<open>healingOps n s\<close> tells whether the browser operations of strategy \<open>s\<close> inside the
    \<open>try\<close> of \<open>handleStepFailure\<close> complete (\<open>True\<close>) or raise (\<open>False\<close>);
  \<^item> \<open>observeAfter n\<close> and \<open>claudeDiagnosis n\<close> are the results of the observation and of
    the oracle request made when a bug is diagnosed; an error raised there leaves
    \<open>executeStep\<close>, as it is raised inside the \<open>catch\<close> block;
  \<^item> \<open>clock n\<close> is the time read by \<open>new Date()\<close>.
  The session recorder's file operations are taken to complete, and inside
  \<open>executeStep\<close> its own checks pass (\<open>startStep\<close>, the first call, opens the step
  log that \<open>logError\<close> asks for). Integers stand for the
  attempt counter and for \<open>maxAttempts\<close>, a whole number of attempts.
  \<open>healingAttempts\<close> is the counter of the agent state; \<open>healed\<close> and \<open>diagnosed\<close> are
  ghost lists recording at which attempts \<open>handleStepFailure\<close> and \<open>diagnoseBug\<close> were
  called.
\<close>

definition MAX_HEALING_ATTEMPTS :: int where
  "MAX_HEALING_ATTEMPTS = 3"

definition effectiveMaxAttempts :: "ScenarioStep \<Rightarrow> int" where
  "effectiveMaxAttempts step =
     (case maxAttempts step of None \<Rightarrow> MAX_HEALING_ATTEMPTS | Some m \<Rightarrow> m)"

record StepExecutionResult =
  success :: bool
  attempts :: int
  error :: "JsError option"
  bug :: "DetectedBug option"

record StepWorld =
  tryBlock :: "int \<Rightarrow> JsError option"
  healingOps :: "int \<Rightarrow> HealingStrategy \<Rightarrow> bool"
  observeAfter :: "int \<Rightarrow> JsError + PageObservation"
  claudeDiagnosis :: "int \<Rightarrow> JsError + DetectedBug"
  clock :: "int \<Rightarrow> nat"

record StepTrace =
  healingAttempts :: int
  healed :: "(int \<times> HealingStrategy) list"
  diagnosed :: "int list"

definition handleStepFailure :: "StepWorld \<Rightarrow> ScenarioStep \<Rightarrow> JsError \<Rightarrow> int \<Rightarrow> bool" where
  "handleStepFailure w step err attempt =
     (let strategy = selectHealingStrategy err attempt in
      case strategy of
        wait_and_retry \<Rightarrow> healingOps w attempt wait_and_retry
      | refresh_and_retry \<Rightarrow> healingOps w attempt refresh_and_retry
      | alternative_selector \<Rightarrow> healingOps w attempt alternative_selector
      | screenshot_analysis \<Rightarrow> healingOps w attempt screenshot_analysis
      | reset_to_known_state \<Rightarrow> healingOps w attempt reset_to_known_state)"

definition diagnoseBug ::
  "(JsError + DetectedBug) \<Rightarrow> string option \<Rightarrow> nat \<Rightarrow> PageObservation \<Rightarrow> JsError + DetectedBug" where
  "diagnoseBug response agentSessionId now observation =
     (case claude_diagnoseBug response now of
        Inl e \<Rightarrow> Inl e
      | Inr diagnosis \<Rightarrow>
          Inr (diagnosis\<lparr>url_b := url observation,
                 screenshots := (case screenshot observation of
                                   None \<Rightarrow> []
                                 | Some shot \<Rightarrow> if shot = [] then [] else [shot]),
                 consoleErrors_b := consoleErrors observation,
                 networkErrors_b := networkErrors observation,
                 timestamp_b := now,
                 sessionId := (case agentSessionId of None \<Rightarrow> [] | Some sid \<Rightarrow> sid)\<rparr>))"

text \<open>The two lines \<open>observe\<close>, \<open>diagnoseBug\<close> that both branches of the \<open>catch\<close> share.\<close>

definition diagnoseAfterFailure ::
  "StepWorld \<Rightarrow> string option \<Rightarrow> int \<Rightarrow> StepTrace \<Rightarrow> (JsError + DetectedBug) \<times> StepTrace" where
  "diagnoseAfterFailure w agentSessionId attempt tr =
     (case observeAfter w attempt of
        Inl e \<Rightarrow> (Inl e, tr)
      | Inr observation \<Rightarrow>
          (diagnoseBug (claudeDiagnosis w attempt) agentSessionId (clock w attempt) observation,
           tr\<lparr>diagnosed := diagnosed tr @ [attempt]\<rparr>))"

text \<open>
  The \<open>catch\<close> block of attempt \<open>attempt\<close>: it yields the new value of the variable
  \<open>bug\<close>, or the error that leaves \<open>executeStep\<close>.
\<close>

definition catchBlock ::
  "StepWorld \<Rightarrow> string option \<Rightarrow> ScenarioStep \<Rightarrow> int \<Rightarrow> int \<Rightarrow> JsError \<Rightarrow> DetectedBug option
     \<Rightarrow> StepTrace \<Rightarrow> (JsError + DetectedBug option) \<times> StepTrace" where
  "catchBlock w agentSessionId step maxA attempt lastError bug0 tr =
     (if attempt < maxA then
        (let tr1 = tr\<lparr>healingAttempts := healingAttempts tr + 1,
                       healed := healed tr @ [(attempt, selectHealingStrategy lastError attempt)]\<rparr>;
             healingSuccess = handleStepFailure w step lastError attempt
         in if \<not> healingSuccess then
              (case diagnoseAfterFailure w agentSessionId attempt tr1 of
                 (Inl e, tr2) \<Rightarrow> (Inl e, tr2)
               | (Inr b, tr2) \<Rightarrow> (Inr (Some b), tr2))
            else (Inr bug0, tr1))
      else
        (case diagnoseAfterFailure w agentSessionId attempt tr of
           (Inl e, tr2) \<Rightarrow> (Inl e, tr2)
         | (Inr b, tr2) \<Rightarrow> (Inr (Some b), tr2)))"

function attemptLoop ::
  "StepWorld \<Rightarrow> string option \<Rightarrow> ScenarioStep \<Rightarrow> int \<Rightarrow> int \<Rightarrow> JsError option
     \<Rightarrow> DetectedBug option \<Rightarrow> StepTrace \<Rightarrow> (JsError + StepExecutionResult) \<times> StepTrace" where
  "attemptLoop w agentSessionId step maxA attempt lastError bug0 tr =
     (if attempt < maxA then
        (case tryBlock w (attempt + 1) of
           None \<Rightarrow>
             (Inr \<lparr>success = True, attempts = attempt + 1, error = None, bug = None\<rparr>, tr)
         | Some e \<Rightarrow>
             (case catchBlock w agentSessionId step maxA (attempt + 1) e bug0 tr of
                (Inl ex, tr') \<Rightarrow> (Inl ex, tr')
              | (Inr bug1, tr') \<Rightarrow>
                  attemptLoop w agentSessionId step maxA (attempt + 1) (Some e) bug1 tr'))
      else
        (Inr \<lparr>success = False, attempts = attempt, error = lastError, bug = bug0\<rparr>, tr))"
  by pat_completeness auto
termination
  by (relation "measure (\<lambda>(w, sid, step, maxA, attempt, lastError, bug0, tr). nat (maxA - attempt))")
     auto

declare attemptLoop.simps [simp del]

definition freshTrace :: StepTrace where
  "freshTrace = \<lparr>healingAttempts = 0, healed = [], diagnosed = []\<rparr>"

text \<open>
  \<open>executeStep\<close> starts the loop at attempt 0 with no error and no bug. \<open>runScenario\<close>
  resets \<open>healingAttempts\<close> to 0 just before each call.
\<close>

definition executeStep ::
  "StepWorld \<Rightarrow> string option \<Rightarrow> ScenarioStep \<Rightarrow> (JsError + StepExecutionResult) \<times> StepTrace" where
  "executeStep w agentSessionId step =
     attemptLoop w agentSessionId step (effectiveMaxAttempts step) 0 None None freshTrace"

section \<open>Agent.runScenario\<close>

text \<open>
  The scenario-level collaborators: \<open>startSession\<close> is the identifier the recorder
  returns, \<open>loadSession f\<close> is \<open>None\<close> when the browser restores the session file \<open>f\<close>
  and \<open>Some e\<close> when it raises \<open>e\<close>, and \<open>stepWorld i\<close> is the world in which the step
  of index \<open>i\<close> runs. The result's \<open>duration\<close> (wall-clock time) is left out.
  \<open>executed\<close> lists the indices of the steps for which \<open>executeStep\<close> was called;
  since \<open>startStep\<close> is the first call of \<open>executeStep\<close>, these are also the step logs
  the recorder holds. The action history is kept by the oracles (it only feeds their
  requests). The recorder's file operations are taken to complete; its check in
  \<open>logError\<close> is modelled: \<open>getCurrentStepLog\<close> raises when the session has no step
  log, and that error, raised inside the \<open>catch\<close> block, leaves \<open>runScenario\<close>, which
  then returns no result.
\<close>

record AuthConfig =
  authType :: string
  sessionFile :: "string option"

record SetupConfig =
  auth :: "AuthConfig option"
  preconditions :: "string list option"

record Scenario =
  name_s :: string
  setup_s :: "SetupConfig option"
  steps :: "ScenarioStep list"

datatype AgentPhase =
  idle | observing | planning | executing | validating | healing | reporting | complete | failed

datatype AgentErrorType = action_failed | validation_failed | timeout | unexpected

record AgentError =
  type_e :: AgentErrorType
  message_e :: string

record ScenarioResult =
  success_s :: bool
  steps_s :: nat
  passed_s :: nat
  failed_s :: nat
  bugs_s :: "DetectedBug list"
  logs_s :: string

record ScenarioWorld =
  startSession :: string
  loadSession :: "string \<Rightarrow> JsError option"
  stepWorld :: "nat \<Rightarrow> StepWorld"

record ScenarioState =
  passedSteps :: nat
  failedSteps :: nat
  bugs :: "DetectedBug list"
  errors :: "AgentError list"
  executed :: "nat list"

record ScenarioRun =
  result :: ScenarioResult
  finalPhase :: AgentPhase
  finalErrors :: "AgentError list"
  executedSteps :: "nat list"

definition handleSetup :: "ScenarioWorld \<Rightarrow> Scenario \<Rightarrow> JsError option" where
  "handleSetup w scenario =
     (case setup_s scenario of
        None \<Rightarrow> None
      | Some su \<Rightarrow>
          (case auth su of
             None \<Rightarrow> None
           | Some a \<Rightarrow>
               (case sessionFile a of
                  None \<Rightarrow> None
                | Some f \<Rightarrow> if f = [] then None else loadSession w f)))"

definition failureMessage :: "StepExecutionResult \<Rightarrow> string" where
  "failureMessage res =
     (case error res of
        None \<Rightarrow> ''Step failed after max attempts''
      | Some e \<Rightarrow> if message e = [] then ''Step failed after max attempts'' else message e)"

text \<open>The body of the \<open>for\<close> loop after \<open>executeStep\<close> returned \<open>res\<close> for \<open>step\<close>.\<close>

definition recordStepResult :: "ScenarioStep \<Rightarrow> StepExecutionResult \<Rightarrow> ScenarioState \<Rightarrow> ScenarioState" where
  "recordStepResult step res st =
     (if success res then st\<lparr>passedSteps := passedSteps st + 1\<rparr>
      else
        (let st1 = st\<lparr>failedSteps := failedSteps st + 1,
                       bugs := (case bug res of None \<Rightarrow> bugs st | Some b \<Rightarrow> bugs st @ [b])\<rparr>
         in if effectiveMaxAttempts step \<le> attempts res
            then st1\<lparr>errors := errors st1 @
                           [\<lparr>type_e = action_failed, message_e = failureMessage res\<rparr>]\<rparr>
            else st1))"

fun runSteps ::
  "ScenarioWorld \<Rightarrow> string option \<Rightarrow> nat \<Rightarrow> ScenarioStep list \<Rightarrow> ScenarioState
     \<Rightarrow> JsError option \<times> ScenarioState" where
  "runSteps w agentSessionId i [] st = (None, st)"
| "runSteps w agentSessionId i (step # rest) st =
     (case fst (executeStep (stepWorld w i) agentSessionId step) of
        Inl ex \<Rightarrow> (Some ex, st\<lparr>executed := executed st @ [i]\<rparr>)
      | Inr res \<Rightarrow>
          runSteps w agentSessionId (i + 1) rest
            (recordStepResult step res (st\<lparr>executed := executed st @ [i]\<rparr>)))"

definition initialScenarioState :: ScenarioState where
  "initialScenarioState =
     \<lparr>passedSteps = 0, failedSteps = 0, bugs = [], errors = [], executed = []\<rparr>"

definition hasPreconditions :: "Scenario \<Rightarrow> bool" where
  "hasPreconditions scenario =
     (case setup_s scenario of None \<Rightarrow> False | Some su \<Rightarrow> preconditions su \<noteq> None)"

text \<open>The \<open>try\<close> block of \<open>runScenario\<close>: the error it raised, if any, and the counters.\<close>

definition scenarioTry :: "ScenarioWorld \<Rightarrow> Scenario \<Rightarrow> JsError option \<times> ScenarioState" where
  "scenarioTry w scenario =
     (case (if hasPreconditions scenario then handleSetup w scenario else None) of
        Some e \<Rightarrow> (Some e, initialScenarioState)
      | None \<Rightarrow> runSteps w (Some (startSession w)) 0 (steps scenario) initialScenarioState)"

text \<open>\<open>SessionLogger.logError\<close>, given the step logs of the session.\<close>

definition logError :: "nat list \<Rightarrow> JsError option" where
  "logError stepLogs = (if stepLogs = [] then Some (Error ''No step started.'') else None)"

definition runScenario :: "ScenarioWorld \<Rightarrow> Scenario \<Rightarrow> JsError + ScenarioRun" where
  "runScenario w scenario =
     (let outcome = scenarioTry w scenario;
          st = snd outcome;
          res = \<lparr>success_s = (failedSteps st = 0),
                 steps_s = length (steps scenario),
                 passed_s = passedSteps st,
                 failed_s = failedSteps st,
                 bugs_s = bugs st,
                 logs_s = startSession w\<rparr>
      in case fst outcome of
           None \<Rightarrow>
             Inr \<lparr>result = res,
                  finalPhase = (if failedSteps st = 0 then complete else failed),
                  finalErrors = errors st,
                  executedSteps = executed st\<rparr>
         | Some e \<Rightarrow>
             (case logError (executed st) of
                Some raised \<Rightarrow> Inl raised
              | None \<Rightarrow>
                  Inr \<lparr>result = res,
                       finalPhase = failed,
                       finalErrors = errors st @ [\<lparr>type_e = unexpected, message_e = message e\<rparr>],
                       executedSteps = executed st\<rparr>))"

text \<open>
  \<open>ScenarioLoader.validateStep\<close> on \<open>maxAttempts\<close>: the loader refuses a scenario in
  which a step sets \<open>maxAttempts\<close> below 1.
\<close>

definition validMaxAttempts :: "ScenarioStep \<Rightarrow> bool" where
  "validMaxAttempts step = (case maxAttempts step of None \<Rightarrow> True | Some m \<Rightarrow> \<not> m < 1)"

section \<open>SelfHealer.attemptRecovery and its strategies\<close>

text \<open>
  One recovery runs against a world of outcomes: \<open>browserOp\<close> gives, for each call
  site of the browser or of the observer's stability wait, \<open>None\<close> when the call
  completes and \<open>Some e\<close> when it raises \<open>e\<close>; \<open>probe k sel\<close> is what the \<open>k\<close>-th
  \<open>checkLoadingIndicators\<close> finds for the selector \<open>sel\<close>; \<open>observe_h\<close> and
  \<open>planActions\<close> are the results of the fresh observation and of the oracle's plan.
\<close>

datatype ActionType =
  click | fill | select | check | uncheck | hover | press | scroll | wait | navigate

record PlannedAction =
  type_a :: ActionType
  target :: string
  value_a :: "string option"
  description_a :: string

record ActionPlan =
  reasoning :: string
  actions :: "PlannedAction list"
  expectedOutcome :: string
  confidence_p :: rat

record RecoveryContext =
  error_rc :: JsError
  observation_rc :: PageObservation
  plan :: ActionPlan
  strategy :: HealingStrategy
  failedAction :: "PlannedAction option"
  baseUrl :: "string option"
  stepStartUrl :: "string option"

record RecoveryResult =
  success_r :: bool
  updatedPlan :: "ActionPlan option"
  newObservation :: "PageObservation option"
  message_r :: string

datatype Probe = ProbeRaises | NoElement | Hidden | Visible

datatype BrowserOp =
  GetPage nat | NetworkIdle | LoadingCheckWait | StillLoadingWait | AnimationWait
  | Reload | StabilizationWait | WaitForStable | BeforeAnalysisWait | BeforeCaptureWait
  | Navigate string | AfterNavigationWait

record HealerWorld =
  browserOp :: "BrowserOp \<Rightarrow> JsError option"
  probe :: "nat \<Rightarrow> string \<Rightarrow> Probe"
  observe_h :: "JsError + PageObservation"
  planActions :: "JsError + ActionPlan"

definition LOADING_SELECTORS :: "string list" where
  "LOADING_SELECTORS =
     [''[data-loading=\"true\"]'', ''[aria-busy=\"true\"]'', ''.loading'', ''.spinner'',
      ''.skeleton'', ''[class*=\"loading\"]'', ''[class*=\"spinner\"]'']"

text \<open>\<open>thenDo op rest\<close>: await \<open>op\<close>; when it raises, so does the whole, else go on.\<close>

definition thenDo :: "JsError option \<Rightarrow> JsError + 'a \<Rightarrow> JsError + 'a" where
  "thenDo op rest = (case op of Some e \<Rightarrow> Inl e | None \<Rightarrow> rest)"

fun anyVisible :: "(string \<Rightarrow> Probe) \<Rightarrow> string list \<Rightarrow> bool" where
  "anyVisible pr [] = False"
| "anyVisible pr (sel # rest) =
     (case pr sel of
        Visible \<Rightarrow> True
      | ProbeRaises \<Rightarrow> anyVisible pr rest
      | NoElement \<Rightarrow> anyVisible pr rest
      | Hidden \<Rightarrow> anyVisible pr rest)"

definition checkLoadingIndicators :: "HealerWorld \<Rightarrow> nat \<Rightarrow> JsError + bool" where
  "checkLoadingIndicators w k =
     thenDo (browserOp w (GetPage k)) (Inr (anyVisible (probe w k) LOADING_SELECTORS))"

definition observeFresh :: "HealerWorld \<Rightarrow> string \<Rightarrow> JsError + RecoveryResult" where
  "observeFresh w msg =
     (case observe_h w of
        Inl e \<Rightarrow> Inl e
      | Inr newObs \<Rightarrow>
          Inr \<lparr>success_r = True, updatedPlan = None, newObservation = Some newObs,
               message_r = msg\<rparr>)"

text \<open>What \<open>waitAndRetry\<close> does after its tolerated wait for network idle.\<close>

definition waitAndRetry_checks :: "HealerWorld \<Rightarrow> JsError + RecoveryResult" where
  "waitAndRetry_checks w =
     (case checkLoadingIndicators w 0 of
        Inl e \<Rightarrow> Inl e
      | Inr hasLoadingIndicators \<Rightarrow>
          thenDo
            (if hasLoadingIndicators then
               (case browserOp w LoadingCheckWait of
                  Some e \<Rightarrow> Some e
                | None \<Rightarrow>
                    (case checkLoadingIndicators w 1 of
                       Inl e \<Rightarrow> Some e
                     | Inr stillLoading \<Rightarrow>
                         if stillLoading then browserOp w StillLoadingWait else None))
             else None)
            (thenDo (browserOp w AnimationWait)
               (observeFresh w ''Waited for page to stabilize'')))"

definition waitAndRetry :: "HealerWorld \<Rightarrow> RecoveryContext \<Rightarrow> JsError + RecoveryResult" where
  "waitAndRetry w context =
     (case browserOp w NetworkIdle of
        Some timeout_ignored \<Rightarrow> waitAndRetry_checks w
      | None \<Rightarrow> waitAndRetry_checks w)"

definition refreshAndRetry :: "HealerWorld \<Rightarrow> RecoveryContext \<Rightarrow> JsError + RecoveryResult" where
  "refreshAndRetry w context =
     thenDo (browserOp w Reload)
       (thenDo (browserOp w NetworkIdle)
          (thenDo (browserOp w StabilizationWait)
             (thenDo (browserOp w WaitForStable)
                (observeFresh w ''Page refreshed and stabilized''))))"

definition findAlternativeSelector :: "HealerWorld \<Rightarrow> RecoveryContext \<Rightarrow> JsError + RecoveryResult" where
  "findAlternativeSelector w context =
     thenDo (browserOp w BeforeAnalysisWait)
       (case observe_h w of
          Inl e \<Rightarrow> Inl e
        | Inr freshObservation \<Rightarrow>
            (case planActions w of
               Inl e \<Rightarrow> Inl e
             | Inr updated \<Rightarrow>
                 if actions updated = []
                 then Inr \<lparr>success_r = False, updatedPlan = None,
                           newObservation = Some freshObservation,
                           message_r = ''Claude could not find an alternative approach''\<rparr>
                 else Inr \<lparr>success_r = True, updatedPlan = Some updated,
                           newObservation = Some freshObservation,
                           message_r = ''Found alternative approach: '' @ reasoning updated\<rparr>))"

definition analyzeScreenshot :: "HealerWorld \<Rightarrow> RecoveryContext \<Rightarrow> JsError + RecoveryResult" where
  "analyzeScreenshot w context =
     thenDo (browserOp w BeforeCaptureWait)
       (case observe_h w of
          Inl e \<Rightarrow> Inl e
        | Inr freshObservation \<Rightarrow>
            (case planActions w of
               Inl e \<Rightarrow> Inl e
             | Inr recoveryPlan \<Rightarrow>
                 if actions recoveryPlan = [] \<and> confidence_p recoveryPlan < 5 / 10
                 then Inr \<lparr>success_r = False, updatedPlan = None,
                           newObservation = Some freshObservation,
                           message_r =
                             ''Screenshot analysis could not determine recovery path''\<rparr>
                 else Inr \<lparr>success_r = True, updatedPlan = Some recoveryPlan,
                           newObservation = Some freshObservation,
                           message_r = ''Screenshot analysis: '' @ reasoning recoveryPlan\<rparr>))"

definition resetUrlOf :: "RecoveryContext \<Rightarrow> string" where
  "resetUrlOf context =
     (let fallback = (case baseUrl context of
                        None \<Rightarrow> ''/''
                      | Some b \<Rightarrow> if b = [] then ''/'' else b)
      in case stepStartUrl context of
           None \<Rightarrow> fallback
         | Some u \<Rightarrow> if u = [] then fallback else u)"

text \<open>
  \<open>dismissModals\<close> reads the page (which raises when there is none) and then presses
  Escape three times inside a \<open>try\<close> that swallows every error.
\<close>

definition resetToKnownState :: "HealerWorld \<Rightarrow> RecoveryContext \<Rightarrow> JsError + RecoveryResult" where
  "resetToKnownState w context =
     thenDo (browserOp w (Navigate (resetUrlOf context)))
       (thenDo (browserOp w NetworkIdle)
          (thenDo (browserOp w (GetPage 2))
             (thenDo (browserOp w AfterNavigationWait)
                (thenDo (browserOp w WaitForStable)
                   (observeFresh w (''Reset to known state: '' @ resetUrlOf context))))))"

definition attemptRecovery :: "HealerWorld \<Rightarrow> RecoveryContext \<Rightarrow> RecoveryResult" where
  "attemptRecovery w context =
     (case (case strategy context of
              wait_and_retry \<Rightarrow> waitAndRetry w context
            | refresh_and_retry \<Rightarrow> refreshAndRetry w context
            | alternative_selector \<Rightarrow> findAlternativeSelector w context
            | screenshot_analysis \<Rightarrow> analyzeScreenshot w context
            | reset_to_known_state \<Rightarrow> resetToKnownState w context) of
        Inr res \<Rightarrow> res
      | Inl err \<Rightarrow>
          \<lparr>success_r = False, updatedPlan = None, newObservation = None,
           message_r = ''Recovery failed: '' @ message err\<rparr>)"

section \<open>Concrete inputs\<close>

text \<open>Inputs at which the theorems below are instantiated and the code is evaluated.\<close>

definition leadsPage :: PageObservation where
  "leadsPage =
     \<lparr>url = ''http://localhost:5173/leads'', title = ''Leads'', interactiveElements = [],
      loadingIndicators = False, consoleErrors = [], networkErrors = [],
      screenshot = Some ''iVBORw0KGgo='', timestamp = 1000\<rparr>"

definition brokenPage :: PageObservation where
  "brokenPage =
     leadsPage\<lparr>consoleErrors := [''TypeError: x is undefined''],
       networkErrors := [\<lparr>url_n = ''/api/leads'', method_n = ''GET'', status = Some 503,
                          error_n = None\<rparr>]\<rparr>"

definition createLead :: ScenarioStep where
  "createLead =
     \<lparr>name = ''Create lead'', goal = ''Create a new lead'', startUrl = None,
      maxAttempts = None\<rparr>"

definition oracleBug :: DetectedBug where
  "oracleBug =
     \<lparr>classification = agent_bug, confidence = 9 / 10, title_b = ''Save button not found'',
      description = ''The save button could not be located'', severity = medium,
      reproductionSteps = [''Open the leads page''], expectedBehavior = ''Lead is saved'',
      actualBehavior = ''Nothing happens'', screenshots = [], consoleErrors_b = [],
      networkErrors_b = [], url_b = [], timestamp_b = 0, sessionId = []\<rparr>"

text \<open>The oracle's bug after \<open>Agent.diagnoseBug\<close> enriched it on the leads page at time 5000.\<close>

definition diagnosedBug :: "string option \<Rightarrow> DetectedBug" where
  "diagnosedBug sid = oracleBug\<lparr>screenshots := [''iVBORw0KGgo=''],
                         url_b := ''http://localhost:5173/leads'', timestamp_b := 5000,
                         sessionId := (case sid of None \<Rightarrow> [] | Some s \<Rightarrow> s)\<rparr>"

definition leadsContext :: "JsError \<Rightarrow> PageObservation \<Rightarrow> DiagnosisContext" where
  "leadsContext err observation =
     \<lparr>step_c = createLead, error_c = err, observation_c = observation,
      actionHistory_c = [''click on elem_3'']\<rparr>"

text \<open>Every attempt fails validation and every healing strategy raises.\<close>

definition stuckWorld :: StepWorld where
  "stuckWorld =
     \<lparr>tryBlock = (\<lambda>n. Some (Error ''Expected outcome not reached'')),
      healingOps = (\<lambda>n s. False),
      observeAfter = (\<lambda>n. Inr leadsPage),
      claudeDiagnosis = (\<lambda>n. Inr oracleBug),
      clock = (\<lambda>n. 5000)\<rparr>"

text \<open>
  Every attempt fails on a network error; reloading the page raises (the network never
  gets idle), the other healing operations complete.
\<close>

definition reloadTimeoutWorld :: StepWorld where
  "reloadTimeoutWorld =
     stuckWorld\<lparr>tryBlock := (\<lambda>n. Some (Error ''Network request failed'')),
       healingOps := (\<lambda>n s. s \<noteq> refresh_and_retry)\<rparr>"

text \<open>Every attempt fails validation and every healing strategy completes.\<close>

definition failingWorld :: StepWorld where
  "failingWorld = stuckWorld\<lparr>healingOps := (\<lambda>n s. True)\<rparr>"

text \<open>Attempt 1 fails and its healing raises; attempt 2 passes validation.\<close>

definition secondTryWorld :: StepWorld where
  "secondTryWorld =
     stuckWorld\<lparr>tryBlock := (\<lambda>n. if n = 1 then Some (Error ''Expected outcome not reached'')
                                  else None)\<rparr>"

definition editLead :: ScenarioStep where
  "editLead =
     \<lparr>name = ''Edit lead'', goal = ''Rename the new lead'', startUrl = None,
      maxAttempts = None\<rparr>"

definition deleteLead :: ScenarioStep where
  "deleteLead =
     \<lparr>name = ''Delete lead'', goal = ''Delete the lead'', startUrl = None,
      maxAttempts = None\<rparr>"

definition leadCrudScenario :: Scenario where
  "leadCrudScenario =
     \<lparr>name_s = ''Lead CRUD'', setup_s = None, steps = [createLead, editLead, deleteLead]\<rparr>"

text \<open>The first attempt passes validation.\<close>

definition passingWorld :: StepWorld where
  "passingWorld = stuckWorld\<lparr>tryBlock := (\<lambda>n. None)\<rparr>"

text \<open>
  Every attempt fails validation, healing completes, and the oracle's answer to the
  diagnosis request holds no JSON, so that \<open>parseDiagnosis\<close> raises.
\<close>

definition brokenOracleWorld :: StepWorld where
  "brokenOracleWorld =
     failingWorld\<lparr>claudeDiagnosis := (\<lambda>n. Inl (Error ''No JSON found in Claude response''))\<rparr>"

text \<open>The first step passes; from the second step on the oracle's diagnosis breaks.\<close>

definition oracleBreaksWorld :: ScenarioWorld where
  "oracleBreaksWorld =
     \<lparr>startSession = ''session_20261102_101500'',
      loadSession = (\<lambda>f. None),
      stepWorld = (\<lambda>i. if i = 0 then passingWorld else brokenOracleWorld)\<rparr>"

definition sessionSetupScenario :: Scenario where
  "sessionSetupScenario =
     \<lparr>name_s = ''Lead CRUD'',
      setup_s = Some \<lparr>auth = Some \<lparr>authType = ''session'', sessionFile = Some ''auth.json''\<rparr>,
                      preconditions = Some [''User is logged in'']\<rparr>,
      steps = [createLead]\<rparr>"

text \<open>The session file does not exist: restoring it raises.\<close>

definition missingSessionWorld :: ScenarioWorld where
  "missingSessionWorld =
     \<lparr>startSession = ''session_20261102_101500'',
      loadSession = (\<lambda>f. Some (Error ''ENOENT: no such file or directory, open auth.json'')),
      stepWorld = (\<lambda>i. failingWorld)\<rparr>"

definition clickPlan :: ActionPlan where
  "clickPlan =
     \<lparr>reasoning = ''Click the save button'',
      actions = [\<lparr>type_a = click, target = ''elem_3'', value_a = None,
                  description_a = ''Click Save''\<rparr>],
      expectedOutcome = ''Lead is saved'', confidence_p = 9 / 10\<rparr>"

definition waitContext :: RecoveryContext where
  "waitContext =
     \<lparr>error_rc = Error ''Expected outcome not reached'', observation_rc = leadsPage,
      plan = clickPlan, strategy = wait_and_retry, failedAction = None,
      baseUrl = Some ''http://localhost:5173'', stepStartUrl = None\<rparr>"

text \<open>Every browser call completes and no loading indicator is found.\<close>

definition calmWorld :: HealerWorld where
  "calmWorld =
     \<lparr>browserOp = (\<lambda>op. None), probe = (\<lambda>k sel. NoElement), observe_h = Inr leadsPage,
      planActions = Inr clickPlan\<rparr>"

text \<open>The page was closed: the fresh observation raises.\<close>

definition closedPageWorld :: HealerWorld where
  "closedPageWorld = calmWorld\<lparr>observe_h := Inl (Error ''Target closed'')\<rparr>"

section \<open>The attempt loop, case by case\<close>

text \<open>
  The loop of \<open>executeStep\<close> has four ways on: it exits because the budget is used up,
  the attempt passes, an error leaves the \<open>catch\<close> block, or the next attempt starts.
  The induction rule below follows them.
\<close>

lemma attemptLoop_exit:
  "\<not> attempt < maxA \<Longrightarrow>
     attemptLoop w sid step maxA attempt le b tr =
       (Inr \<lparr>success = False, attempts = attempt, error = le, bug = b\<rparr>, tr)"
  by (simp add: attemptLoop.simps)

lemma attemptLoop_pass:
  "attempt < maxA \<Longrightarrow> tryBlock w (attempt + 1) = None \<Longrightarrow>
     attemptLoop w sid step maxA attempt le b tr =
       (Inr \<lparr>success = True, attempts = attempt + 1, error = None, bug = None\<rparr>, tr)"
  by (simp add: attemptLoop.simps)

lemma attemptLoop_abort:
  "attempt < maxA \<Longrightarrow> tryBlock w (attempt + 1) = Some e \<Longrightarrow>
   catchBlock w sid step maxA (attempt + 1) e b tr = (Inl ex, tr1) \<Longrightarrow>
     attemptLoop w sid step maxA attempt le b tr = (Inl ex, tr1)"
  by (simp add: attemptLoop.simps)

lemma attemptLoop_retry:
  "attempt < maxA \<Longrightarrow> tryBlock w (attempt + 1) = Some e \<Longrightarrow>
   catchBlock w sid step maxA (attempt + 1) e b tr = (Inr b1, tr1) \<Longrightarrow>
     attemptLoop w sid step maxA attempt le b tr =
       attemptLoop w sid step maxA (attempt + 1) (Some e) b1 tr1"
  by (simp add: attemptLoop.simps)

lemma attemptLoop_cases_induct [case_names exit pass abort retry]:
  assumes ex: "\<And>attempt le b tr. \<not> attempt < maxA \<Longrightarrow> P attempt le b tr"
    and pa: "\<And>attempt le b tr. attempt < maxA \<Longrightarrow> tryBlock w (attempt + 1) = None
               \<Longrightarrow> P attempt le b tr"
    and ab: "\<And>attempt le b tr e ex tr1. attempt < maxA \<Longrightarrow> tryBlock w (attempt + 1) = Some e
               \<Longrightarrow> catchBlock w sid step maxA (attempt + 1) e b tr = (Inl ex, tr1)
               \<Longrightarrow> P attempt le b tr"
    and re: "\<And>attempt le b tr e b1 tr1. attempt < maxA \<Longrightarrow> tryBlock w (attempt + 1) = Some e
               \<Longrightarrow> catchBlock w sid step maxA (attempt + 1) e b tr = (Inr b1, tr1)
               \<Longrightarrow> P (attempt + 1) (Some e) b1 tr1
               \<Longrightarrow> P attempt le b tr"
  shows "P attempt le b tr"
proof (induction "nat (maxA - attempt)" arbitrary: attempt le b tr rule: less_induct)
  case (less attempt le b tr)
  show ?case
  proof (cases "attempt < maxA")
    case False
    then show ?thesis by (rule ex)
  next
    case True
    show ?thesis
    proof (cases "tryBlock w (attempt + 1)")
      case None
      with True show ?thesis by (rule pa)
    next
      case (Some e)
      obtain res tr1 where cb: "catchBlock w sid step maxA (attempt + 1) e b tr = (res, tr1)"
        by (cases "catchBlock w sid step maxA (attempt + 1) e b tr")
      show ?thesis
      proof (cases res)
        case (Inl ex)
        with True Some cb show ?thesis by (auto intro: ab)
      next
        case (Inr b1)
        from True have "nat (maxA - (attempt + 1)) < nat (maxA - attempt)" by simp
        then have "P (attempt + 1) (Some e) b1 tr1" by (rule less)
        with True Some cb Inr show ?thesis by (auto intro: re)
      qed
    qed
  qed
qed

lemma catchBlock_healing:
  assumes "catchBlock w sid step maxA n e b0 tr = (res, tr')"
  shows "healingAttempts tr' = healingAttempts tr + (if n < maxA then 1 else 0)"
    and "healed tr' = healed tr @ (if n < maxA then [(n, selectHealingStrategy e n)] else [])"
  using assms
  by (auto simp: catchBlock_def diagnoseAfterFailure_def Let_def split: if_splits sum.splits prod.splits)

lemma catchBlock_final:
  assumes "catchBlock w sid step maxA n e b0 tr = (Inr b1, tr')" and "\<not> n < maxA"
  shows "\<exists>obs bg. observeAfter w n = Inr obs \<and>
           diagnoseBug (claudeDiagnosis w n) sid (clock w n) obs = Inr bg \<and> b1 = Some bg \<and>
           diagnosed tr' = diagnosed tr @ [n]"
  using assms
  by (auto simp: catchBlock_def diagnoseAfterFailure_def Let_def split: if_splits sum.splits prod.splits)

lemma loop_success:
  "attemptLoop w sid step maxA attempt le b tr = (Inr r, tr') \<Longrightarrow> success r \<Longrightarrow>
     bug r = None \<and> error r = None \<and> attempt < attempts r \<and> attempts r \<le> maxA \<and>
     tryBlock w (attempts r) = None"
proof (induction attempt le b tr rule: attemptLoop_cases_induct[where w = w and sid = sid and step = step and maxA = maxA])
  case (exit attempt le b tr)
  then show ?case by (auto simp: attemptLoop_exit)
next
  case (pass attempt le b tr)
  then show ?case by (auto simp: attemptLoop_pass)
next
  case (abort attempt le b tr e ex tr1)
  then show ?case by (simp add: attemptLoop_abort)
next
  case (retry attempt le b tr e b1 tr1)
  from retry.prems(1) retry.hyps have "attemptLoop w sid step maxA (attempt + 1) (Some e) b1 tr1 = (Inr r, tr')"
    by (simp add: attemptLoop_retry)
  from retry.IH[OF this retry.prems(2)] show ?case by simp
qed

lemma loop_first_pass:
  "attemptLoop w sid step maxA attempt le b tr = (Inr r, tr') \<Longrightarrow>
   tryBlock w n = None \<Longrightarrow> attempt < n \<Longrightarrow> n \<le> maxA \<Longrightarrow> success r"
proof (induction attempt le b tr rule: attemptLoop_cases_induct[where w = w and sid = sid and step = step and maxA = maxA])
  case (exit attempt le b tr)
  then show ?case by simp
next
  case (pass attempt le b tr)
  then show ?case by (auto simp: attemptLoop_pass)
next
  case (abort attempt le b tr e ex tr1)
  then show ?case by (simp add: attemptLoop_abort)
next
  case (retry attempt le b tr e b1 tr1)
  from retry.prems(1) retry.hyps have l: "attemptLoop w sid step maxA (attempt + 1) (Some e) b1 tr1 = (Inr r, tr')"
    by (simp add: attemptLoop_retry)
  from retry.hyps(2) retry.prems(2) have "n \<noteq> attempt + 1" by auto
  with retry.prems(3) have "attempt + 1 < n" by simp
  from retry.IH[OF l retry.prems(2) this retry.prems(4)] show ?case .
qed

lemma loop_failure:
  "attemptLoop w sid step maxA attempt le b tr = (Inr r, tr') \<Longrightarrow> \<not> success r \<Longrightarrow>
   attempt < maxA \<Longrightarrow>
     attempts r = maxA \<and> tryBlock w maxA \<noteq> None \<and>
     (\<exists>obs bg. observeAfter w maxA = Inr obs \<and>
        diagnoseBug (claudeDiagnosis w maxA) sid (clock w maxA) obs = Inr bg \<and>
        bug r = Some bg) \<and>
     diagnosed tr' \<noteq> [] \<and> last (diagnosed tr') = maxA"
proof (induction attempt le b tr rule: attemptLoop_cases_induct[where w = w and sid = sid and step = step and maxA = maxA])
  case (exit attempt le b tr)
  then show ?case by simp
next
  case (pass attempt le b tr)
  then show ?case by (auto simp: attemptLoop_pass)
next
  case (abort attempt le b tr e ex tr1)
  then show ?case by (simp add: attemptLoop_abort)
next
  case (retry attempt le b tr e b1 tr1)
  from retry.prems(1) retry.hyps have l: "attemptLoop w sid step maxA (attempt + 1) (Some e) b1 tr1 = (Inr r, tr')"
    by (simp add: attemptLoop_retry)
  show ?case
  proof (cases "attempt + 1 < maxA")
    case True
    from retry.IH[OF l retry.prems(2) True] show ?thesis .
  next
    case False
    with retry.hyps(1) have eq: "attempt + 1 = maxA" by simp
    from l False have r: "r = \<lparr>success = False, attempts = attempt + 1, error = Some e, bug = b1\<rparr>"
      and t: "tr' = tr1" by (auto simp: attemptLoop_exit)
    from catchBlock_final[OF retry.hyps(3) False] retry.hyps(2) r t eq show ?thesis by auto
  qed
qed

lemma loop_healing:
  "attemptLoop w sid step maxA attempt le b tr = (res, tr') \<Longrightarrow>
     (\<exists>hs. healed tr' = healed tr @ hs \<and>
        healingAttempts tr' = healingAttempts tr + int (length hs) \<and>
        (\<forall>(n, s) \<in> set hs. attempt < n \<and> n < maxA \<and>
           (\<exists>e. tryBlock w n = Some e \<and> s = selectHealingStrategy e n)) \<and>
        int (length hs) \<le> (if attempt < maxA then maxA - 1 - attempt else 0))"
proof (induction attempt le b tr rule: attemptLoop_cases_induct[where w = w and sid = sid and step = step and maxA = maxA])
  case (exit attempt le b tr)
  then show ?case by (auto simp: attemptLoop_exit)
next
  case (pass attempt le b tr)
  then show ?case by (auto simp: attemptLoop_pass)
next
  case (abort attempt le b tr e ex tr1)
  from abort.prems abort.hyps have t: "tr' = tr1" by (simp add: attemptLoop_abort)
  from catchBlock_healing[OF abort.hyps(3)] abort.hyps(1,2) t
  show ?case by (cases "attempt + 1 < maxA") auto
next
  case (retry attempt le b tr e b1 tr1)
  from retry.prems(1) retry.hyps have l: "attemptLoop w sid step maxA (attempt + 1) (Some e) b1 tr1 = (res, tr')"
    by (simp add: attemptLoop_retry)
  from retry.IH[OF l] obtain hs where hs: "healed tr' = healed tr1 @ hs"
     "healingAttempts tr' = healingAttempts tr1 + int (length hs)"
     "\<forall>(n, s) \<in> set hs. attempt + 1 < n \<and> n < maxA \<and> (\<exists>e. tryBlock w n = Some e \<and> s = selectHealingStrategy e n)"
     "int (length hs) \<le> (if attempt + 1 < maxA then maxA - 1 - (attempt + 1) else 0)"
    by blast
  let ?h1 = "if attempt + 1 < maxA then [(attempt + 1, selectHealingStrategy e (attempt + 1))] else []"
  from catchBlock_healing[OF retry.hyps(3)]
  have c: "healingAttempts tr1 = healingAttempts tr + (if attempt + 1 < maxA then 1 else 0)"
          "healed tr1 = healed tr @ ?h1" by auto
  show ?case
  proof (intro exI[of _ "?h1 @ hs"] conjI)
    show "healed tr' = healed tr @ ?h1 @ hs" using hs(1) c(2) by simp
    show "healingAttempts tr' = healingAttempts tr + int (length (?h1 @ hs))" using hs(2) c(1) by simp
    show "\<forall>(n, s) \<in> set (?h1 @ hs). attempt < n \<and> n < maxA \<and> (\<exists>e. tryBlock w n = Some e \<and> s = selectHealingStrategy e n)"
      using hs(3) retry.hyps(2) by (auto split: if_splits)
    show "int (length (?h1 @ hs)) \<le> (if attempt < maxA then maxA - 1 - attempt else 0)"
      using hs(4) retry.hyps(1) by (auto split: if_splits)
  qed
qed

section \<open>Evaluation on concrete inputs\<close>

lemmas eval_step = executeStep_def effectiveMaxAttempts_def MAX_HEALING_ATTEMPTS_def freshTrace_def
  attemptLoop.simps catchBlock_def diagnoseAfterFailure_def diagnoseBug_def claude_diagnoseBug_def
  parseDiagnosis_def handleStepFailure_def Let_def

lemmas eval_heur = analyzeWithHeuristics_def detectAppBugIndicators_def detectAgentBugIndicators_def
  detectEnvironmentIndicators_def signal_def toLowerCase_def lowerChar_def Let_def statusIn_def
  isJavaScriptError_def isReactError_def isNetworkConnectionError_def

lemma handleStepFailure_eq:
  "handleStepFailure w step err attempt = healingOps w attempt (selectHealingStrategy err attempt)"
  by (cases "selectHealingStrategy err attempt") (simp_all add: handleStepFailure_def Let_def)

lemma select_unreached:
  "selectHealingStrategy (Error ''Expected outcome not reached'') 1 = wait_and_retry"
  "selectHealingStrategy (Error ''Expected outcome not reached'') 2 = screenshot_analysis"
  by (simp_all add: selectHealingStrategy_def toLowerCase_def lowerChar_def)

lemmas run_step = executeStep_def effectiveMaxAttempts_def MAX_HEALING_ATTEMPTS_def freshTrace_def
  attemptLoop.simps catchBlock_def diagnoseAfterFailure_def diagnoseBug_def claude_diagnoseBug_def
  parseDiagnosis_def handleStepFailure_eq select_unreached Let_def

lemma stuckWorld_run:
  "executeStep stuckWorld sid createLead =
     (Inr \<lparr>success = False, attempts = 3,
           error = Some (Error ''Expected outcome not reached''),
           bug = Some (diagnosedBug sid)\<rparr>,
      \<lparr>healingAttempts = 2,
       healed = [(1, wait_and_retry), (2, screenshot_analysis)],
       diagnosed = [1, 2, 3]\<rparr>)"
  by (simp add: run_step stuckWorld_def createLead_def leadsPage_def oracleBug_def diagnosedBug_def)

lemma secondTryWorld_run:
  "executeStep secondTryWorld sid createLead =
     (Inr \<lparr>success = True, attempts = 2, error = None, bug = None\<rparr>,
      \<lparr>healingAttempts = 1, healed = [(1, wait_and_retry)], diagnosed = [1]\<rparr>)"
  by (simp add: run_step secondTryWorld_def stuckWorld_def createLead_def)

section \<open>Heuristic classification decision\<close>

text \<open>
  C1. For every error and observation, with \<open>total\<close> the sum of the three detector
  scores: when \<open>total\<close> is 0 the heuristic result is \<open>unknown\<close> with confidence 0;
  otherwise the confidence is the largest score divided by \<open>total + 1\<close> and the
  classification is the first of application defect, agent defect, environment defect
  whose score is the largest (the final \<open>unknown\<close> branch of the source is never
  taken).
\<close>

theorem analyzeWithHeuristics_decision:
  "(let a = appScore err observation; g = agentScore err observation;
        e = envScore err observation; total = a + g + e;
        h = analyzeWithHeuristics err observation
    in classification_h h =
         (if total = 0 then unknown
          else if a = max a (max g e) then app_bug
          else if g = max a (max g e) then agent_bug
          else environment_issue) \<and>
       confidence_h h =
         (if total = 0 then 0
          else rat_of_nat (max a (max g e)) / rat_of_nat (total + 1)))"
  unfolding analyzeWithHeuristics_def appScore_def agentScore_def envScore_def Let_def
  by (auto simp: max_def)

text \<open>
  C1, at concrete inputs: a timeout without loading indicator (agent score 2) on a page
  with an uncaught exception in the console (application score 2) is a tie, won by the
  application defect with confidence 2/5; a failure with no signal is \<open>unknown\<close> with
  confidence 0.
\<close>

theorem analyzeWithHeuristics_decision_witness:
  "appScore (Error ''Timeout 5000ms exceeded'') (leadsPage\<lparr>consoleErrors := [''Uncaught exception'']\<rparr>) = 2 \<and>
   agentScore (Error ''Timeout 5000ms exceeded'') (leadsPage\<lparr>consoleErrors := [''Uncaught exception'']\<rparr>) = 2 \<and>
   envScore (Error ''Timeout 5000ms exceeded'') (leadsPage\<lparr>consoleErrors := [''Uncaught exception'']\<rparr>) = 0 \<and>
   classification_h (analyzeWithHeuristics (Error ''Timeout 5000ms exceeded'')
      (leadsPage\<lparr>consoleErrors := [''Uncaught exception'']\<rparr>)) = app_bug \<and>
   confidence_h (analyzeWithHeuristics (Error ''Timeout 5000ms exceeded'')
      (leadsPage\<lparr>consoleErrors := [''Uncaught exception'']\<rparr>)) = 2 / 5 \<and>
   classification_h (analyzeWithHeuristics (Error ''Expected outcome not reached'') leadsPage) = unknown \<and>
   confidence_h (analyzeWithHeuristics (Error ''Expected outcome not reached'') leadsPage) = 0"
proof -
  let ?e = "Error ''Timeout 5000ms exceeded''"
  let ?o = "leadsPage\<lparr>consoleErrors := [''Uncaught exception'']\<rparr>"
  have a: "appScore ?e ?o = 2"
    by (simp add: appScore_def leadsPage_def eval_heur)
  have g: "agentScore ?e ?o = 2"
    by (simp add: agentScore_def leadsPage_def eval_heur)
  have e: "envScore ?e ?o = 0"
    by (simp add: envScore_def leadsPage_def eval_heur)
  have z: "appScore (Error ''Expected outcome not reached'') leadsPage = 0"
       "agentScore (Error ''Expected outcome not reached'') leadsPage = 0"
       "envScore (Error ''Expected outcome not reached'') leadsPage = 0"
    by (simp_all add: appScore_def agentScore_def envScore_def leadsPage_def eval_heur)
  from analyzeWithHeuristics_decision[of ?e ?o] a g e
  have "classification_h (analyzeWithHeuristics ?e ?o) = app_bug"
       "confidence_h (analyzeWithHeuristics ?e ?o) = 2 / 5"
    by (simp_all add: Let_def)
  moreover from analyzeWithHeuristics_decision[of "Error ''Expected outcome not reached''" leadsPage] z
  have "classification_h (analyzeWithHeuristics (Error ''Expected outcome not reached'') leadsPage) = unknown"
       "confidence_h (analyzeWithHeuristics (Error ''Expected outcome not reached'') leadsPage) = 0"
    by (simp_all add: Let_def)
  ultimately show ?thesis using a g e by simp
qed

section \<open>Healing strategy selection\<close>

text \<open>
  \<open>SelfHealer.selectStrategy\<close> follows the selection policy for every error text and
  attempt number.
\<close>

lemma selectStrategy_policy:
  "selectStrategy err attempt =
     (let m = toLowerCase (message err) in
      if attempt = 1 then wait_and_retry
      else if attempt = 2 then
        (if list_ex (includes_str m) [''timeout'', ''not found'', ''no element'', ''locator'']
         then alternative_selector
         else if list_ex (includes_str m) [''network'', ''loading'', ''hydrat'', ''navigation'']
         then refresh_and_retry
         else screenshot_analysis)
      else reset_to_known_state)"
  by (simp add: selectStrategy_def Let_def)

lemma selectStrategy_late: "3 \<le> attempt \<Longrightarrow> selectStrategy err attempt = reset_to_known_state"
  by (simp add: selectStrategy_def Let_def)

text \<open>
  C2. The policy (attempt 2: "timeout", "not found", "no element", "locator" give the
  alternative selector; "network", "loading", "hydrat", "navigation" give the refresh)
  is said to hold for the selection the step runner uses. The step runner calls
  \<open>Agent.selectHealingStrategy\<close>, which knows neither "locator" nor "navigation": at
  attempt 2 both error texts below get the screenshot analysis from it, where
  \<open>SelfHealer.selectStrategy\<close> gives the alternative selector and the refresh; the
  last conjunct runs a step whose attempts fail with the first text.
\<close>

theorem selectHealingStrategy_misses_locator_and_navigation:
  "selectHealingStrategy (Error ''locator.click: strict mode violation'') 2 = screenshot_analysis \<and>
   selectStrategy (Error ''locator.click: strict mode violation'') 2 = alternative_selector \<and>
   selectHealingStrategy (Error ''page.goto: Navigation failed'') 2 = screenshot_analysis \<and>
   selectStrategy (Error ''page.goto: Navigation failed'') 2 = refresh_and_retry \<and>
   healed (snd (executeStep
      (failingWorld\<lparr>tryBlock := (\<lambda>n. Some (Error ''locator.click: strict mode violation''))\<rparr>)
      None createLead)) = [(1, wait_and_retry), (2, screenshot_analysis)]"
  by (simp add: selectHealingStrategy_def selectStrategy_def toLowerCase_def lowerChar_def
       eval_step failingWorld_def stuckWorld_def createLead_def)

section \<open>Attempt budget and healing\<close>

text \<open>
  C3, as stated, fails for a step whose \<open>maxAttempts\<close> is 0: the budget is 0, not at
  least 1, and the step fails without a single attempt and without a bug.
\<close>

theorem zero_budget_counterexample:
  "\<not> 1 \<le> effectiveMaxAttempts (createLead\<lparr>maxAttempts := Some 0\<rparr>) \<and>
   executeStep failingWorld None (createLead\<lparr>maxAttempts := Some 0\<rparr>) =
     (Inr \<lparr>success = False, attempts = 0, error = None, bug = None\<rparr>, freshTrace)"
  by (simp add: eval_step createLead_def)

text \<open>
  C3, amended. For every step whose \<open>maxAttempts\<close> is unset or a whole number of at
  least 1 (\<open>ScenarioLoader.validateStep\<close> refuses values below 1), the budget is \<open>maxAttempts\<close> when set and 3
  otherwise, and is at least 1; in one step execution healing is called only after a
  failed attempt whose number is below the budget, so at most budget - 1 times (the
  counter \<open>healingAttempts\<close> counts the calls); and when the step returns a failure, the
  final attempt failed, no healing was called for it, and the last call of the
  classifier was made at it.
\<close>

theorem attempt_budget_and_healing:
  assumes v: "validMaxAttempts step" and x: "executeStep w sid step = (res, tr)"
  shows "effectiveMaxAttempts step = (case maxAttempts step of None \<Rightarrow> 3 | Some m \<Rightarrow> m) \<and>
         1 \<le> effectiveMaxAttempts step \<and>
         (\<forall>(n, s) \<in> set (healed tr).
            1 \<le> n \<and> n < effectiveMaxAttempts step \<and> tryBlock w n \<noteq> None) \<and>
         healingAttempts tr = int (length (healed tr)) \<and>
         healingAttempts tr \<le> effectiveMaxAttempts step - 1 \<and>
         (\<forall>r. res = Inr r \<and> \<not> success r \<longrightarrow>
            attempts r = effectiveMaxAttempts step \<and>
            tryBlock w (effectiveMaxAttempts step) \<noteq> None \<and>
            effectiveMaxAttempts step \<notin> fst ` set (healed tr) \<and>
            diagnosed tr \<noteq> [] \<and> last (diagnosed tr) = effectiveMaxAttempts step)"
proof -
  let ?m = "effectiveMaxAttempts step"
  have b: "?m = (case maxAttempts step of None \<Rightarrow> 3 | Some m \<Rightarrow> m)"
    by (simp add: effectiveMaxAttempts_def MAX_HEALING_ATTEMPTS_def split: option.splits)
  from v have p: "1 \<le> ?m"
    by (auto simp: validMaxAttempts_def effectiveMaxAttempts_def MAX_HEALING_ATTEMPTS_def
          split: option.splits)
  from x have l: "attemptLoop w sid step ?m 0 None None freshTrace = (res, tr)"
    by (simp add: executeStep_def)
  from loop_healing[OF l] obtain hs where
    hs: "healed tr = hs" "healingAttempts tr = int (length hs)"
        "\<forall>(n, s) \<in> set hs. 0 < n \<and> n < ?m \<and> (\<exists>e. tryBlock w n = Some e \<and> s = selectHealingStrategy e n)"
        "int (length hs) \<le> (if 0 < ?m then ?m - 1 - 0 else 0)"
    by (auto simp: freshTrace_def)
  have h1: "\<forall>(n, s) \<in> set (healed tr). 1 \<le> n \<and> n < ?m \<and> tryBlock w n \<noteq> None"
    using hs(1,3) by fastforce
  have h2: "healingAttempts tr = int (length (healed tr))" using hs(1,2) by simp
  have h3: "healingAttempts tr \<le> ?m - 1" using hs(2,4) p by simp
  have h4: "?m \<notin> fst ` set (healed tr)" using h1 by fastforce
  have f: "\<forall>r. res = Inr r \<and> \<not> success r \<longrightarrow>
            attempts r = ?m \<and> tryBlock w ?m \<noteq> None \<and> ?m \<notin> fst ` set (healed tr) \<and>
            diagnosed tr \<noteq> [] \<and> last (diagnosed tr) = ?m"
  proof (intro allI impI)
    fix r assume a: "res = Inr r \<and> \<not> success r"
    with l have "attemptLoop w sid step ?m 0 None None freshTrace = (Inr r, tr)" by simp
    from loop_failure[OF this] a p h4
    show "attempts r = ?m \<and> tryBlock w ?m \<noteq> None \<and> ?m \<notin> fst ` set (healed tr) \<and>
            diagnosed tr \<noteq> [] \<and> last (diagnosed tr) = ?m" by simp
  qed
  from b p h1 h2 h3 f show ?thesis by blast
qed

text \<open>
  C3, amended, at a concrete input: with \<open>maxAttempts = 2\<close> and every attempt failing,
  healing runs once (at attempt 1) and the classifier is called at attempt 2.
\<close>

theorem attempt_budget_and_healing_witness:
  "validMaxAttempts (createLead\<lparr>maxAttempts := Some 2\<rparr>) \<and>
   effectiveMaxAttempts (createLead\<lparr>maxAttempts := Some 2\<rparr>) = 2 \<and>
   healed (snd (executeStep failingWorld None (createLead\<lparr>maxAttempts := Some 2\<rparr>))) =
     [(1, wait_and_retry)] \<and>
   healingAttempts (snd (executeStep failingWorld None (createLead\<lparr>maxAttempts := Some 2\<rparr>))) = 1 \<and>
   diagnosed (snd (executeStep failingWorld None (createLead\<lparr>maxAttempts := Some 2\<rparr>))) = [2] \<and>
   \<not> success (projr (fst (executeStep failingWorld None (createLead\<lparr>maxAttempts := Some 2\<rparr>))))"
proof -
  let ?s = "createLead\<lparr>maxAttempts := Some 2\<rparr>"
  have v: "validMaxAttempts ?s" by (simp add: validMaxAttempts_def)
  have x: "executeStep failingWorld None ?s =
             (fst (executeStep failingWorld None ?s), snd (executeStep failingWorld None ?s))"
    by simp
  have e: "healed (snd (executeStep failingWorld None ?s)) = [(1, wait_and_retry)]"
          "diagnosed (snd (executeStep failingWorld None ?s)) = [2]"
          "\<not> success (projr (fst (executeStep failingWorld None ?s)))"
    by (simp_all add: eval_step failingWorld_def stuckWorld_def createLead_def selectHealingStrategy_def)
  from attempt_budget_and_healing[OF v x] e v show ?thesis by simp
qed

section \<open>Classification after a failed healing\<close>

text \<open>
  C4. When a healing attempt fails to recover, the classifier is to be called at once
  and no further attempt consumed, so that a step that fails calls the classifier
  exactly once. In \<open>executeStep\<close> the branch that diagnoses after a failed healing has
  no exit: the loop goes on. With the default budget of 3, every attempt failing on a
  network error and the reload of attempt 2 raising, the classifier is called at
  attempt 2, attempt 3 is still consumed, and the classifier is called again at
  attempt 3; the bug returned is the one of attempt 3.
\<close>

theorem failed_healing_does_not_stop_the_loop:
  "selectHealingStrategy (Error ''Network request failed'') 2 = refresh_and_retry \<and>
   \<not> handleStepFailure reloadTimeoutWorld createLead (Error ''Network request failed'') 2 \<and>
   executeStep reloadTimeoutWorld (Some ''session_20261102_101500'') createLead =
     (Inr \<lparr>success = False, attempts = 3,
           error = Some (Error ''Network request failed''),
           bug = Some (diagnosedBug (Some ''session_20261102_101500''))\<rparr>,
      \<lparr>healingAttempts = 2,
       healed = [(1, wait_and_retry), (2, refresh_and_retry)],
       diagnosed = [2, 3]\<rparr>)"
proof -
  have s: "selectHealingStrategy (Error ''Network request failed'') 1 = wait_and_retry"
          "selectHealingStrategy (Error ''Network request failed'') 2 = refresh_and_retry"
    by (simp_all add: selectHealingStrategy_def toLowerCase_def lowerChar_def)
  have h: "\<not> handleStepFailure reloadTimeoutWorld createLead (Error ''Network request failed'') 2"
    by (simp add: handleStepFailure_eq s reloadTimeoutWorld_def)
  have x: "executeStep reloadTimeoutWorld (Some ''session_20261102_101500'') createLead =
     (Inr \<lparr>success = False, attempts = 3,
           error = Some (Error ''Network request failed''),
           bug = Some (diagnosedBug (Some ''session_20261102_101500''))\<rparr>,
      \<lparr>healingAttempts = 2,
       healed = [(1, wait_and_retry), (2, refresh_and_retry)],
       diagnosed = [2, 3]\<rparr>)"
    by (simp add: executeStep_def effectiveMaxAttempts_def MAX_HEALING_ATTEMPTS_def
          freshTrace_def attemptLoop.simps catchBlock_def diagnoseAfterFailure_def
          diagnoseBug_def claude_diagnoseBug_def parseDiagnosis_def handleStepFailure_eq s
          Let_def reloadTimeoutWorld_def stuckWorld_def createLead_def leadsPage_def
          oracleBug_def diagnosedBug_def)
  from s(2) h x show ?thesis by (intro conjI)
qed

section \<open>Bugs in a step result\<close>

text \<open>
  C5. A step execution that returns has no bug in its result when it succeeded, and
  \<open>runScenario\<close> takes at most one bug from its result when it failed (the one in the
  field \<open>bug\<close>, if any), however many attempts and diagnoses the step made.
\<close>

theorem step_result_bug_count:
  assumes "fst (executeStep w sid step) = Inr r"
  shows "(success r \<longrightarrow> bug r = None \<and> bugs (recordStepResult step r st) = bugs st) \<and>
         (\<not> success r \<longrightarrow>
            bugs (recordStepResult step r st) =
              bugs st @ (case bug r of None \<Rightarrow> [] | Some b \<Rightarrow> [b]) \<and>
            length (bugs (recordStepResult step r st)) \<le> length (bugs st) + 1)"
proof -
  from assms have l: "attemptLoop w sid step (effectiveMaxAttempts step) 0 None None freshTrace =
      (Inr r, snd (executeStep w sid step))"
    by (simp add: executeStep_def prod_eq_iff)
  have s: "success r \<longrightarrow> bug r = None \<and> bugs (recordStepResult step r st) = bugs st"
    using loop_success[OF l] by (simp add: recordStepResult_def)
  have f: "\<not> success r \<longrightarrow>
            bugs (recordStepResult step r st) =
              bugs st @ (case bug r of None \<Rightarrow> [] | Some b \<Rightarrow> [b]) \<and>
            length (bugs (recordStepResult step r st)) \<le> length (bugs st) + 1"
    by (simp add: recordStepResult_def Let_def split: option.splits)
  from s f show ?thesis by blast
qed

text \<open>
  C5, at concrete inputs: a step that diagnosed three times and failed adds one bug to
  the scenario's list; a step that succeeded at its second attempt adds none.
\<close>

theorem step_result_bug_count_witness:
  "diagnosed (snd (executeStep stuckWorld None createLead)) = [1, 2, 3] \<and>
   length (bugs (recordStepResult createLead
      \<lparr>success = False, attempts = 3, error = Some (Error ''Expected outcome not reached''),
       bug = Some (diagnosedBug None)\<rparr> initialScenarioState)) = 1 \<and>
   bugs (recordStepResult createLead
      \<lparr>success = True, attempts = 2, error = None, bug = None\<rparr> initialScenarioState) = []"
proof -
  have a: "fst (executeStep stuckWorld None createLead) =
      Inr \<lparr>success = False, attempts = 3, error = Some (Error ''Expected outcome not reached''),
           bug = Some (diagnosedBug None)\<rparr>"
    by (simp add: stuckWorld_run)
  have b: "fst (executeStep secondTryWorld None createLead) =
      Inr \<lparr>success = True, attempts = 2, error = None, bug = None\<rparr>"
    by (simp add: secondTryWorld_run)
  from step_result_bug_count[OF a, of initialScenarioState]
  have "length (bugs (recordStepResult createLead
      \<lparr>success = False, attempts = 3, error = Some (Error ''Expected outcome not reached''),
       bug = Some (diagnosedBug None)\<rparr> initialScenarioState)) = 1"
    by (simp add: initialScenarioState_def)
  moreover from step_result_bug_count[OF b, of initialScenarioState]
  have "bugs (recordStepResult createLead
      \<lparr>success = True, attempts = 2, error = None, bug = None\<rparr> initialScenarioState) = []"
    by (simp add: initialScenarioState_def)
  ultimately show ?thesis by (simp add: stuckWorld_run)
qed

text \<open>
  C10. If some attempt within the budget passes validation and the step execution
  returns, it returns success without a bug, and \<open>runScenario\<close> adds no bug for the
  step: a bug diagnosed after an earlier attempt's failed healing is dropped.
\<close>

theorem passing_attempt_discards_earlier_bug:
  assumes "executeStep w sid step = (Inr r, tr)"
    and "1 \<le> n" and "n \<le> effectiveMaxAttempts step" and "tryBlock w n = None"
  shows "success r \<and> bug r = None \<and> bugs (recordStepResult step r st) = bugs st"
proof -
  from assms(1) have l: "attemptLoop w sid step (effectiveMaxAttempts step) 0 None None freshTrace =
      (Inr r, tr)"
    by (simp add: executeStep_def)
  from assms(2) have "0 < n" by simp
  from loop_first_pass[OF l assms(4) this assms(3)] have s: "success r" .
  with loop_success[OF l] show ?thesis by (simp add: recordStepResult_def)
qed

text \<open>
  C10, at a concrete input: attempt 1 fails, its healing raises and a bug is diagnosed
  (the classifier was called at attempt 1); attempt 2 passes; the result is a success
  with no bug.
\<close>

theorem passing_attempt_discards_earlier_bug_witness:
  "tryBlock secondTryWorld 1 \<noteq> None \<and> tryBlock secondTryWorld 2 = None \<and>
   diagnosed (snd (executeStep secondTryWorld None createLead)) = [1] \<and>
   fst (executeStep secondTryWorld None createLead) =
     Inr \<lparr>success = True, attempts = 2, error = None, bug = None\<rparr> \<and>
   bugs (recordStepResult createLead \<lparr>success = True, attempts = 2, error = None, bug = None\<rparr>
           initialScenarioState) = []"
proof -
  have n: "(1::int) \<le> 2" "2 \<le> effectiveMaxAttempts createLead" "tryBlock secondTryWorld 2 = None"
    by (simp_all add: effectiveMaxAttempts_def MAX_HEALING_ATTEMPTS_def createLead_def
          secondTryWorld_def)
  have m: "tryBlock secondTryWorld 1 \<noteq> None"
    by (simp add: secondTryWorld_def)
  from passing_attempt_discards_earlier_bug[OF secondTryWorld_run[of None] n, where st = initialScenarioState] n(3) m
  show ?thesis by (simp add: initialScenarioState_def secondTryWorld_run)
qed

section \<open>Scenario outcome\<close>

text \<open>
  In every run that returns a result, the reported success is that the failed count is
  zero; and when no error leaves the \<open>try\<close> block of \<open>runScenario\<close>, a result is
  returned, every step is executed, in the declared order, and the reported success is
  that every step returned success.
\<close>

lemma runScenario_success_iff:
  "runScenario w scenario = Inr run \<Longrightarrow>
     success_s (result run) \<longleftrightarrow> failed_s (result run) = 0"
  by (auto simp: runScenario_def Let_def split: option.splits)

lemma recordStepResult_counts:
  "executed (recordStepResult step r st) = executed st"
  "failedSteps (recordStepResult step r st) = failedSteps st + (if success r then 0 else 1)"
  "passedSteps (recordStepResult step r st) = passedSteps st + (if success r then 1 else 0)"
  by (simp_all add: recordStepResult_def Let_def)

lemma runSteps_Cons_None:
  assumes "runSteps w sid i (step # rest) st = (None, st')"
  obtains r where "fst (executeStep (stepWorld w i) sid step) = Inr r"
    and "runSteps w sid (Suc i) rest
           (recordStepResult step r (st\<lparr>executed := executed st @ [i]\<rparr>)) = (None, st')"
  using assms by (cases "fst (executeStep (stepWorld w i) sid step)") simp_all

lemma upt_shift: "[i ..< i + Suc n] = i # [Suc i ..< Suc i + n]"
  by (subst upt_rec) simp

lemma runSteps_executed:
  "runSteps w sid i ss st = (None, st') \<Longrightarrow> executed st' = executed st @ [i ..< i + length ss]"
proof (induction ss arbitrary: i st)
  case Nil
  then show ?case by simp
next
  case (Cons step rest)
  from Cons.prems obtain r where
    rec: "runSteps w sid (Suc i) rest
            (recordStepResult step r (st\<lparr>executed := executed st @ [i]\<rparr>)) = (None, st')"
    by (rule runSteps_Cons_None)
  have "executed st' = (executed st @ [i]) @ [Suc i ..< Suc i + length rest]"
    using Cons.IH[OF rec] by (simp add: recordStepResult_counts)
  also have "\<dots> = executed st @ [i ..< i + length (step # rest)]"
    using upt_shift[of i "length rest"] by simp
  finally show ?case .
qed

lemma runSteps_failed_mono:
  "runSteps w sid i ss st = (None, st') \<Longrightarrow> failedSteps st \<le> failedSteps st'"
proof (induction ss arbitrary: i st)
  case Nil
  then show ?case by simp
next
  case (Cons step rest)
  from Cons.prems obtain r where
    rec: "runSteps w sid (Suc i) rest
            (recordStepResult step r (st\<lparr>executed := executed st @ [i]\<rparr>)) = (None, st')"
    by (rule runSteps_Cons_None)
  from Cons.IH[OF rec] show ?case by (simp add: recordStepResult_counts split: if_splits)
qed

lemma runSteps_none_failed:
  "runSteps w sid i ss st = (None, st') \<Longrightarrow>
     (failedSteps st' = failedSteps st) =
     (\<forall>k < length ss. \<exists>r. fst (executeStep (stepWorld w (i + k)) sid (ss ! k)) = Inr r \<and> success r)"
proof (induction ss arbitrary: i st)
  case Nil
  then show ?case by simp
next
  case (Cons step rest)
  from Cons.prems obtain r where
    r: "fst (executeStep (stepWorld w i) sid step) = Inr r" and
    rec: "runSteps w sid (Suc i) rest
            (recordStepResult step r (st\<lparr>executed := executed st @ [i]\<rparr>)) = (None, st')"
    by (rule runSteps_Cons_None)
  let ?st1 = "recordStepResult step r (st\<lparr>executed := executed st @ [i]\<rparr>)"
  have f1: "failedSteps ?st1 = failedSteps st + (if success r then 0 else 1)"
    by (simp add: recordStepResult_counts)
  have mono: "failedSteps ?st1 \<le> failedSteps st'"
    using rec by (rule runSteps_failed_mono)
  have ih: "(failedSteps st' = failedSteps ?st1) =
     (\<forall>k < length rest. \<exists>r. fst (executeStep (stepWorld w (Suc i + k)) sid (rest ! k)) = Inr r \<and> success r)"
    using rec by (rule Cons.IH)
  have "(failedSteps st' = failedSteps st) = (success r \<and> failedSteps st' = failedSteps ?st1)"
    using f1 mono by (cases "success r") simp_all
  also have "\<dots> = (success r \<and>
     (\<forall>k < length rest. \<exists>r. fst (executeStep (stepWorld w (Suc i + k)) sid (rest ! k)) = Inr r \<and> success r))"
    using ih by simp
  also have "\<dots> = (\<forall>k < length (step # rest).
       \<exists>r. fst (executeStep (stepWorld w (i + k)) sid ((step # rest) ! k)) = Inr r \<and> success r)"
    using r by (simp add: All_less_Suc2)
  finally show ?case .
qed

lemma runScenario_without_abort:
  assumes "fst (scenarioTry w scenario) = None"
  shows "\<exists>run. runScenario w scenario = Inr run \<and>
           executedSteps run = [0 ..< length (steps scenario)] \<and>
           (success_s (result run) =
              (\<forall>k < length (steps scenario).
                 \<exists>r. fst (executeStep (stepWorld w k) (Some (startSession w))
                             (steps scenario ! k)) = Inr r \<and>
                     success r))"
proof -
  let ?st = "snd (scenarioTry w scenario)"
  have rs: "runSteps w (Some (startSession w)) 0 (steps scenario) initialScenarioState = (None, ?st)"
  proof (cases "if hasPreconditions scenario then handleSetup w scenario else None")
    case None
    with assms show ?thesis by (simp add: scenarioTry_def prod_eq_iff)
  next
    case (Some e)
    with assms show ?thesis by (simp add: scenarioTry_def)
  qed
  have i: "executed initialScenarioState = []" "failedSteps initialScenarioState = 0"
    by (simp_all add: initialScenarioState_def)
  obtain run where run: "runScenario w scenario = Inr run"
    and x: "executedSteps run = executed ?st" "success_s (result run) = (failedSteps ?st = 0)"
    using assms by (simp add: runScenario_def Let_def)
  from runSteps_executed[OF rs] i x(1)
  have e: "executedSteps run = [0 ..< length (steps scenario)]" by simp
  from runSteps_none_failed[OF rs] i x(2)
  have f: "success_s (result run) =
            (\<forall>k < length (steps scenario).
               \<exists>r. fst (executeStep (stepWorld w k) (Some (startSession w)) (steps scenario ! k)) = Inr r \<and>
                   success r)" by simp
  from run e f show ?thesis by blast
qed

text \<open>
  When the set-up raises, no step has been started: \<open>logError\<close> raises in the \<open>catch\<close>
  block and \<open>runScenario\<close> returns no result.
\<close>

lemma aborted_setup_returns_no_result:
  "runScenario missingSessionWorld sessionSetupScenario = Inl (Error ''No step started.'')"
  by (simp add: runScenario_def scenarioTry_def hasPreconditions_def handleSetup_def logError_def
        missingSessionWorld_def sessionSetupScenario_def initialScenarioState_def Let_def)

lemma passingWorld_run:
  "0 < effectiveMaxAttempts step \<Longrightarrow>
   executeStep passingWorld sid step =
     (Inr \<lparr>success = True, attempts = 1, error = None, bug = None\<rparr>, freshTrace)"
  by (simp add: executeStep_def attemptLoop.simps passingWorld_def)

lemma brokenOracleWorld_run:
  "fst (executeStep brokenOracleWorld sid editLead) =
     Inl (Error ''No JSON found in Claude response'')"
  by (simp add: run_step brokenOracleWorld_def failingWorld_def stuckWorld_def editLead_def)

text \<open>
  C9. The outcome is said to report success exactly when every step reported success,
  also when an unexpected error aborts the scenario. In the scenario below the first
  step passes; every attempt of the second step fails validation and the diagnosis of
  its final failure raises, an error that leaves \<open>executeStep\<close> and is caught by
  \<open>runScenario\<close> (the recorder has a step log, so \<open>logError\<close> completes). The \<open>catch\<close>
  block sets the phase to \<open>failed\<close> and records the error, yet the result is computed
  from the failed count alone, which counted neither the second step nor the third,
  never executed: the outcome reports success with one step passed of three.
\<close>

theorem aborted_scenario_reports_success:
  "tryBlock brokenOracleWorld 1 \<noteq> None \<and> tryBlock brokenOracleWorld 2 \<noteq> None \<and>
   tryBlock brokenOracleWorld 3 \<noteq> None \<and>
   fst (executeStep brokenOracleWorld (Some ''session_20261102_101500'') editLead) =
     Inl (Error ''No JSON found in Claude response'') \<and>
   runScenario oracleBreaksWorld leadCrudScenario =
     Inr \<lparr>result = \<lparr>success_s = True, steps_s = 3, passed_s = 1, failed_s = 0, bugs_s = [],
                    logs_s = ''session_20261102_101500''\<rparr>,
          finalPhase = failed,
          finalErrors = [\<lparr>type_e = unexpected,
                          message_e = ''No JSON found in Claude response''\<rparr>],
          executedSteps = [0, 1]\<rparr>"
proof -
  have t: "tryBlock brokenOracleWorld 1 \<noteq> None" "tryBlock brokenOracleWorld 2 \<noteq> None"
          "tryBlock brokenOracleWorld 3 \<noteq> None"
    by (simp_all add: brokenOracleWorld_def failingWorld_def stuckWorld_def)
  have p: "fst (executeStep passingWorld (Some ''session_20261102_101500'') createLead) =
      Inr \<lparr>success = True, attempts = 1, error = None, bug = None\<rparr>"
    by (simp add: passingWorld_run effectiveMaxAttempts_def MAX_HEALING_ATTEMPTS_def createLead_def)
  have r: "runScenario oracleBreaksWorld leadCrudScenario =
     Inr \<lparr>result = \<lparr>success_s = True, steps_s = 3, passed_s = 1, failed_s = 0, bugs_s = [],
                    logs_s = ''session_20261102_101500''\<rparr>,
          finalPhase = failed,
          finalErrors = [\<lparr>type_e = unexpected,
                          message_e = ''No JSON found in Claude response''\<rparr>],
          executedSteps = [0, 1]\<rparr>"
    by (simp add: runScenario_def scenarioTry_def hasPreconditions_def logError_def
          oracleBreaksWorld_def leadCrudScenario_def initialScenarioState_def Let_def
          p brokenOracleWorld_run recordStepResult_def)
  from t brokenOracleWorld_run[of "Some ''session_20261102_101500''"] r
  show ?thesis by (intro conjI)
qed

section \<open>Confidence of a DetectedBug\<close>

text \<open>
  The heuristic confidence is at least 0 and below 1, since the largest score is at
  most the total. \<open>diagnose\<close> returns an enriched bug on both of its paths, and
  enrichment leaves the confidence alone.
\<close>

lemma analyzeWithHeuristics_confidence_range:
  "0 \<le> confidence_h (analyzeWithHeuristics err observation) \<and>
   confidence_h (analyzeWithHeuristics err observation) < 1"
proof -
  let ?a = "appScore err observation" and ?g = "agentScore err observation"
    and ?e = "envScore err observation"
  let ?m = "max ?a (max ?g ?e)"
  have c: "confidence_h (analyzeWithHeuristics err observation) =
     (if ?a + ?g + ?e = 0 then 0 else rat_of_nat ?m / rat_of_nat (?a + ?g + ?e + 1))"
    by (simp add: analyzeWithHeuristics_def appScore_def agentScore_def envScore_def Let_def
          max.commute max.left_commute)
  have "?m < ?a + ?g + ?e + 1" by simp
  then have "rat_of_nat ?m < rat_of_nat (?a + ?g + ?e + 1)" by (simp only: of_nat_less_iff)
  then have "rat_of_nat ?m / rat_of_nat (?a + ?g + ?e + 1) < 1"
    by (simp add: divide_less_eq_1)
  moreover have "0 \<le> rat_of_nat ?m / rat_of_nat (?a + ?g + ?e + 1)" by simp
  ultimately show ?thesis using c by simp
qed

lemma diagnose_heuristic_path:
  "CONFIDENCE_THRESHOLD_HIGH \<le> confidence_h (analyzeWithHeuristics (error_c context) (observation_c context)) \<Longrightarrow>
   diagnose pathname response now context =
     Inr (enrichBug (createBugFromHeuristics pathname now context
            (analyzeWithHeuristics (error_c context) (observation_c context))) context now)"
  by (simp add: diagnose_def Let_def)

lemma diagnose_oracle_path:
  "\<not> CONFIDENCE_THRESHOLD_HIGH \<le> confidence_h (analyzeWithHeuristics (error_c context) (observation_c context)) \<Longrightarrow>
   diagnose pathname response now context = Inr b \<Longrightarrow>
   \<exists>parsed d. response = Inr parsed \<and> b = enrichBug d context now \<and>
      confidence d = confidence parsed"
  by (auto simp: diagnose_def Let_def claude_diagnoseBug_def parseDiagnosis_def split: sum.splits if_splits)

lemma enrichBug_fields:
  "confidence (enrichBug bg context now) = confidence bg"
  "url_b (enrichBug bg context now) = url (observation_c context)"
  "screenshots (enrichBug bg context now) =
     (case screenshot (observation_c context) of None \<Rightarrow> []
      | Some shot \<Rightarrow> if shot = [] then [] else [shot])"
  "consoleErrors_b (enrichBug bg context now) = consoleErrors (observation_c context)"
  "networkErrors_b (enrichBug bg context now) = networkErrors (observation_c context)"
  "timestamp_b (enrichBug bg context now) = now"
  "sessionId (enrichBug bg context now) = []"
  by (simp_all add: enrichBug_def Let_def)

lemma diagnose_is_enriched:
  "diagnose pathname response now context = Inr b \<Longrightarrow> \<exists>d. b = enrichBug d context now"
  by (auto simp: diagnose_def Let_def split: sum.splits if_splits)

text \<open>
  C6, as stated, fails: nothing clamps a confidence that comes from the oracle. When
  no heuristic signal fires and the oracle answers with confidence 1.5, \<open>diagnose\<close>
  returns a bug with confidence 1.5; and a recovery plan of confidence 1.5 is handed
  on by \<open>analyzeScreenshot\<close> as it is.
\<close>

theorem confidence_unclamped_counterexample:
  "\<not> (case diagnose (\<lambda>u. None) (Inr (oracleBug\<lparr>confidence := 3 / 2\<rparr>)) 5000
            (leadsContext (Error ''Expected outcome not reached'') leadsPage) of
         Inl e \<Rightarrow> True
       | Inr b \<Rightarrow> 0 \<le> confidence b \<and> confidence b \<le> 1) \<and>
   \<not> (case analyzeScreenshot (calmWorld\<lparr>planActions := Inr (clickPlan\<lparr>confidence_p := 3 / 2\<rparr>)\<rparr>)
            waitContext of
         Inl e \<Rightarrow> True
       | Inr r \<Rightarrow> (case updatedPlan r of None \<Rightarrow> True
                   | Some p \<Rightarrow> 0 \<le> confidence_p p \<and> confidence_p p \<le> 1))"
proof -
  have h: "confidence_h (analyzeWithHeuristics (Error ''Expected outcome not reached'') leadsPage) = 0"
    by (simp add: leadsPage_def eval_heur)
  have "diagnose (\<lambda>u. None) (Inr (oracleBug\<lparr>confidence := 3 / 2\<rparr>)) 5000
            (leadsContext (Error ''Expected outcome not reached'') leadsPage) =
        Inr (enrichBug (parseDiagnosis (oracleBug\<lparr>confidence := 3 / 2\<rparr>) 5000)
               (leadsContext (Error ''Expected outcome not reached'') leadsPage) 5000)"
    using h by (simp add: diagnose_def Let_def leadsContext_def claude_diagnoseBug_def
                  CONFIDENCE_THRESHOLD_HIGH_def CONFIDENCE_THRESHOLD_LOW_def)
  moreover have "confidence (enrichBug (parseDiagnosis (oracleBug\<lparr>confidence := 3 / 2\<rparr>) 5000)
               (leadsContext (Error ''Expected outcome not reached'') leadsPage) 5000) = 3 / 2"
    by (simp add: enrichBug_fields parseDiagnosis_def)
  moreover have "analyzeScreenshot (calmWorld\<lparr>planActions := Inr (clickPlan\<lparr>confidence_p := 3 / 2\<rparr>)\<rparr>)
            waitContext =
      Inr \<lparr>success_r = True, updatedPlan = Some (clickPlan\<lparr>confidence_p := 3 / 2\<rparr>),
           newObservation = Some leadsPage,
           message_r = ''Screenshot analysis: '' @ reasoning clickPlan\<rparr>"
    by (simp add: analyzeScreenshot_def thenDo_def calmWorld_def clickPlan_def)
  ultimately show ?thesis by simp
qed

text \<open>
  C6, amended. The heuristic confidence always lies in [0, 1). When it is at least 0.8
  the bug returned by \<open>diagnose\<close> carries it, so its confidence lies in [0.8, 1); when it
  is below 0.8 the bug carries the confidence of the oracle's answer unchanged, in
  [0, 1] exactly when the oracle's value is.
\<close>

theorem confidence_by_path:
  assumes d: "diagnose pathname response now context = Inr b"
  shows "(let h = analyzeWithHeuristics (error_c context) (observation_c context) in
           0 \<le> confidence_h h \<and> confidence_h h < 1 \<and>
           (if 8 / 10 \<le> confidence_h h
            then confidence b = confidence_h h \<and> 8 / 10 \<le> confidence b \<and> confidence b < 1
            else \<exists>parsed. response = Inr parsed \<and> confidence b = confidence parsed))"
proof -
  let ?h = "analyzeWithHeuristics (error_c context) (observation_c context)"
  note r = analyzeWithHeuristics_confidence_range[of "error_c context" "observation_c context"]
  show ?thesis
  proof (cases "8 / 10 \<le> confidence_h ?h")
    case True
    then have "CONFIDENCE_THRESHOLD_HIGH \<le> confidence_h ?h"
      by (simp add: CONFIDENCE_THRESHOLD_HIGH_def)
    from diagnose_heuristic_path[OF this, of pathname response now] d
    have "confidence b = confidence_h ?h"
      by (auto simp: enrichBug_fields createBugFromHeuristics_def Let_def)
    with True r show ?thesis by (simp add: Let_def)
  next
    case False
    then have "\<not> CONFIDENCE_THRESHOLD_HIGH \<le> confidence_h ?h"
      by (simp add: CONFIDENCE_THRESHOLD_HIGH_def)
    from diagnose_oracle_path[OF this d]
    have "\<exists>parsed. response = Inr parsed \<and> confidence b = confidence parsed"
      by (auto simp: enrichBug_fields)
    with False r show ?thesis by (simp add: Let_def)
  qed
qed

text \<open>
  C6, amended, at a concrete input: a 503 response and a TypeError in the console give
  the application score 5 and the confidence 5/6, which the returned bug carries.
\<close>

theorem confidence_by_path_witness:
  "confidence_h (analyzeWithHeuristics (Error ''boom'') brokenPage) = 5 / 6 \<and>
   confidence (projr (diagnose (\<lambda>u. None) (Inl (Error ''no answer'')) 5000
                        (leadsContext (Error ''boom'') brokenPage))) = 5 / 6"
proof -
  let ?c = "leadsContext (Error ''boom'') brokenPage"
  have h: "confidence_h (analyzeWithHeuristics (Error ''boom'') brokenPage) = 5 / 6"
    by (simp add: brokenPage_def leadsPage_def eval_heur)
  have c: "error_c ?c = Error ''boom''" "observation_c ?c = brokenPage"
    by (simp_all add: leadsContext_def)
  have t: "CONFIDENCE_THRESHOLD_HIGH \<le> confidence_h (analyzeWithHeuristics (error_c ?c) (observation_c ?c))"
    using h c by (simp add: CONFIDENCE_THRESHOLD_HIGH_def)
  have d: "diagnose (\<lambda>u. None) (Inl (Error ''no answer'')) 5000 ?c =
      Inr (projr (diagnose (\<lambda>u. None) (Inl (Error ''no answer'')) 5000 ?c))"
    by (simp add: diagnose_heuristic_path[OF t])
  from confidence_by_path[OF d] h c show ?thesis by (simp add: Let_def)
qed

section \<open>The strategy wait_and_retry\<close>

text \<open>
  C7, as stated, fails: when the fresh observation raises (the page was closed),
  \<open>attemptRecovery\<close> catches the error and returns a failure for \<open>wait_and_retry\<close>.
\<close>

theorem wait_and_retry_observe_raises_counterexample:
  "strategy waitContext = wait_and_retry \<and>
   attemptRecovery closedPageWorld waitContext =
     \<lparr>success_r = False, updatedPlan = None, newObservation = None,
      message_r = ''Recovery failed: Target closed''\<rparr>"
  by (simp add: attemptRecovery_def waitAndRetry_def waitAndRetry_checks_def
        checkLoadingIndicators_def observeFresh_def thenDo_def closedPageWorld_def calmWorld_def
        waitContext_def LOADING_SELECTORS_def)

lemma checkLoadingIndicators_ok:
  "browserOp w (GetPage k) = None \<Longrightarrow>
   checkLoadingIndicators w k = Inr (anyVisible (probe w k) LOADING_SELECTORS)"
  by (simp add: checkLoadingIndicators_def thenDo_def)

lemma waitAndRetry_checks_ok:
  assumes "browserOp w (GetPage 0) = None" "browserOp w (GetPage 1) = None"
    "browserOp w LoadingCheckWait = None" "browserOp w StillLoadingWait = None"
    "browserOp w AnimationWait = None" "observe_h w = Inr obs"
  shows "waitAndRetry_checks w =
     Inr \<lparr>success_r = True, updatedPlan = None, newObservation = Some obs,
          message_r = ''Waited for page to stabilize''\<rparr>"
  using assms
  by (simp add: waitAndRetry_checks_def checkLoadingIndicators_ok observeFresh_def thenDo_def)

lemma waitAndRetry_eq: "waitAndRetry w context = waitAndRetry_checks w"
  by (simp add: waitAndRetry_def split: option.splits)

lemma waitAndRetry_checks_success:
  "waitAndRetry_checks w = Inr r \<Longrightarrow> success_r r"
  by (auto simp: waitAndRetry_checks_def observeFresh_def thenDo_def
      split: sum.splits option.splits if_splits)

lemma waitAndRetry_page_raises:
  "browserOp w (GetPage 0) = Some e \<Longrightarrow> waitAndRetry_checks w = Inl e"
  by (simp add: waitAndRetry_checks_def checkLoadingIndicators_def thenDo_def)

lemma waitAndRetry_polling:
  "browserOp w (GetPage 0) = None \<Longrightarrow>
   waitAndRetry_checks w =
     thenDo
       (if anyVisible (probe w 0) LOADING_SELECTORS then
          (case browserOp w LoadingCheckWait of
             Some e \<Rightarrow> Some e
           | None \<Rightarrow>
               (case browserOp w (GetPage 1) of
                  Some e \<Rightarrow> Some e
                | None \<Rightarrow>
                    if anyVisible (probe w 1) LOADING_SELECTORS
                    then browserOp w StillLoadingWait else None))
        else None)
       (thenDo (browserOp w AnimationWait) (observeFresh w ''Waited for page to stabilize''))"
  by (simp add: waitAndRetry_checks_def checkLoadingIndicators_def thenDo_def
        split: option.splits)

text \<open>
  C7, amended. For \<open>wait_and_retry\<close>, the result of \<open>attemptRecovery\<close> is decided by the
  calls that are reached, whatever the wait for network idle does. With \<open>loading0\<close> and
  \<open>loading1\<close> what the first and the second poll for loading indicators find: an error
  raised by reading the page for a poll, by the short wait after a positive first poll,
  by the longer wait after a positive second poll, by the settle wait or by the fresh
  observation gives the failure "Recovery failed: " followed by the error's message;
  when every call reached completes, the result is a success holding the fresh
  observation. In particular, when these calls all complete, the result is a success
  whatever the polls find.
\<close>

theorem wait_and_retry_outcome:
  assumes s: "strategy context = wait_and_retry"
  shows
    "(let failure = (\<lambda>e. \<lparr>success_r = False, updatedPlan = None, newObservation = None,
                           message_r = ''Recovery failed: '' @ message e\<rparr>);
          loading0 = anyVisible (probe w 0) LOADING_SELECTORS;
          loading1 = anyVisible (probe w 1) LOADING_SELECTORS;
          polled = (browserOp w (GetPage 0) = None \<and>
                    (loading0 \<longrightarrow>
                       browserOp w LoadingCheckWait = None \<and> browserOp w (GetPage 1) = None \<and>
                       (loading1 \<longrightarrow> browserOp w StillLoadingWait = None)))
      in (\<forall>e. browserOp w (GetPage 0) = Some e \<longrightarrow> attemptRecovery w context = failure e) \<and>
         (\<forall>e. browserOp w (GetPage 0) = None \<and> loading0 \<and>
               browserOp w LoadingCheckWait = Some e \<longrightarrow>
               attemptRecovery w context = failure e) \<and>
         (\<forall>e. browserOp w (GetPage 0) = None \<and> loading0 \<and>
               browserOp w LoadingCheckWait = None \<and> browserOp w (GetPage 1) = Some e \<longrightarrow>
               attemptRecovery w context = failure e) \<and>
         (\<forall>e. browserOp w (GetPage 0) = None \<and> loading0 \<and>
               browserOp w LoadingCheckWait = None \<and> browserOp w (GetPage 1) = None \<and>
               loading1 \<and> browserOp w StillLoadingWait = Some e \<longrightarrow>
               attemptRecovery w context = failure e) \<and>
         (\<forall>e. polled \<and> browserOp w AnimationWait = Some e \<longrightarrow>
               attemptRecovery w context = failure e) \<and>
         (\<forall>e. polled \<and> browserOp w AnimationWait = None \<and> observe_h w = Inl e \<longrightarrow>
               attemptRecovery w context = failure e) \<and>
         (\<forall>obs. polled \<and> browserOp w AnimationWait = None \<and> observe_h w = Inr obs \<longrightarrow>
               attemptRecovery w context =
                 \<lparr>success_r = True, updatedPlan = None, newObservation = Some obs,
                  message_r = ''Waited for page to stabilize''\<rparr>) \<and>
         (\<forall>obs. browserOp w (GetPage 0) = None \<and> browserOp w (GetPage 1) = None \<and>
               browserOp w LoadingCheckWait = None \<and> browserOp w StillLoadingWait = None \<and>
               browserOp w AnimationWait = None \<and> observe_h w = Inr obs \<longrightarrow>
               attemptRecovery w context =
                 \<lparr>success_r = True, updatedPlan = None, newObservation = Some obs,
                  message_r = ''Waited for page to stabilize''\<rparr>))"
proof -
  let ?failure = "\<lambda>e. \<lparr>success_r = False, updatedPlan = None, newObservation = None,
                         message_r = ''Recovery failed: '' @ message e\<rparr>"
  let ?ok = "\<lambda>obs. \<lparr>success_r = True, updatedPlan = None, newObservation = Some obs,
                      message_r = ''Waited for page to stabilize''\<rparr>"
  let ?l0 = "anyVisible (probe w 0) LOADING_SELECTORS"
  let ?l1 = "anyVisible (probe w 1) LOADING_SELECTORS"
  let ?polled = "browserOp w (GetPage 0) = None \<and>
                    (?l0 \<longrightarrow>
                       browserOp w LoadingCheckWait = None \<and> browserOp w (GetPage 1) = None \<and>
                       (?l1 \<longrightarrow> browserOp w StillLoadingWait = None))"
  have a: "attemptRecovery w context =
            (case waitAndRetry_checks w of Inr r \<Rightarrow> r | Inl e \<Rightarrow> ?failure e)"
    using s by (simp add: attemptRecovery_def waitAndRetry_eq)
  have c1: "\<forall>e. browserOp w (GetPage 0) = Some e \<longrightarrow> attemptRecovery w context = ?failure e"
    by (simp add: a waitAndRetry_page_raises)
  have c2: "\<forall>e. browserOp w (GetPage 0) = None \<and> ?l0 \<and> browserOp w LoadingCheckWait = Some e \<longrightarrow>
               attemptRecovery w context = ?failure e"
    by (simp add: a waitAndRetry_polling thenDo_def)
  have c3: "\<forall>e. browserOp w (GetPage 0) = None \<and> ?l0 \<and> browserOp w LoadingCheckWait = None \<and>
               browserOp w (GetPage 1) = Some e \<longrightarrow> attemptRecovery w context = ?failure e"
    by (simp add: a waitAndRetry_polling thenDo_def)
  have c4: "\<forall>e. browserOp w (GetPage 0) = None \<and> ?l0 \<and> browserOp w LoadingCheckWait = None \<and>
               browserOp w (GetPage 1) = None \<and> ?l1 \<and> browserOp w StillLoadingWait = Some e \<longrightarrow>
               attemptRecovery w context = ?failure e"
    by (simp add: a waitAndRetry_polling thenDo_def)
  have pol: "?polled \<Longrightarrow> waitAndRetry_checks w =
      thenDo (browserOp w AnimationWait) (observeFresh w ''Waited for page to stabilize'')"
    by (auto simp: waitAndRetry_polling thenDo_def)
  have c5: "\<forall>e. ?polled \<and> browserOp w AnimationWait = Some e \<longrightarrow>
               attemptRecovery w context = ?failure e"
    using pol by (simp add: a thenDo_def)
  have c6: "\<forall>e. ?polled \<and> browserOp w AnimationWait = None \<and> observe_h w = Inl e \<longrightarrow>
               attemptRecovery w context = ?failure e"
    using pol by (simp add: a thenDo_def observeFresh_def)
  have c7: "\<forall>obs. ?polled \<and> browserOp w AnimationWait = None \<and> observe_h w = Inr obs \<longrightarrow>
               attemptRecovery w context = ?ok obs"
    using pol by (simp add: a thenDo_def observeFresh_def)
  have c8: "\<forall>obs. browserOp w (GetPage 0) = None \<and> browserOp w (GetPage 1) = None \<and>
               browserOp w LoadingCheckWait = None \<and> browserOp w StillLoadingWait = None \<and>
               browserOp w AnimationWait = None \<and> observe_h w = Inr obs \<longrightarrow>
               attemptRecovery w context = ?ok obs"
    using c7 by blast
  from c1 c2 c3 c4 c5 c6 c7 c8 show ?thesis unfolding Let_def by (intro conjI)
qed

text \<open>
  C7, amended, at concrete inputs: success with every loading indicator visible at both
  polls and the wait for network idle timing out; failure when the observation raises,
  when reading the page raises, and when the settle wait raises.
\<close>

theorem wait_and_retry_outcome_witness:
  "strategy waitContext = wait_and_retry \<and>
   attemptRecovery
     (calmWorld\<lparr>browserOp := (\<lambda>op. if op = NetworkIdle then Some (Error ''Timeout 30000ms exceeded'') else None),
        probe := (\<lambda>k sel. Visible)\<rparr>) waitContext =
     \<lparr>success_r = True, updatedPlan = None, newObservation = Some leadsPage,
      message_r = ''Waited for page to stabilize''\<rparr> \<and>
   attemptRecovery closedPageWorld waitContext =
     \<lparr>success_r = False, updatedPlan = None, newObservation = None,
      message_r = ''Recovery failed: Target closed''\<rparr> \<and>
   attemptRecovery
     (calmWorld\<lparr>browserOp := (\<lambda>op. if op = GetPage 0 then Some (Error ''Page not initialized'') else None)\<rparr>)
     waitContext =
     \<lparr>success_r = False, updatedPlan = None, newObservation = None,
      message_r = ''Recovery failed: Page not initialized''\<rparr> \<and>
   attemptRecovery
     (calmWorld\<lparr>browserOp := (\<lambda>op. if op = AnimationWait then Some (Error ''Page crashed'') else None)\<rparr>)
     waitContext =
     \<lparr>success_r = False, updatedPlan = None, newObservation = None,
      message_r = ''Recovery failed: Page crashed''\<rparr>"
proof -
  let ?busy = "calmWorld\<lparr>browserOp := (\<lambda>op. if op = NetworkIdle then Some (Error ''Timeout 30000ms exceeded'') else None),
        probe := (\<lambda>k sel. Visible)\<rparr>"
  let ?nopage = "calmWorld\<lparr>browserOp := (\<lambda>op. if op = GetPage 0 then Some (Error ''Page not initialized'') else None)\<rparr>"
  let ?crash = "calmWorld\<lparr>browserOp := (\<lambda>op. if op = AnimationWait then Some (Error ''Page crashed'') else None)\<rparr>"
  have s: "strategy waitContext = wait_and_retry" by (simp add: waitContext_def)
  have l: "anyVisible (\<lambda>sel. Visible) LOADING_SELECTORS" "\<not> anyVisible (\<lambda>sel. NoElement) LOADING_SELECTORS"
    by (simp_all add: LOADING_SELECTORS_def)
  from wait_and_retry_outcome[OF s, of ?busy] l
  have 1: "attemptRecovery ?busy waitContext =
     \<lparr>success_r = True, updatedPlan = None, newObservation = Some leadsPage,
      message_r = ''Waited for page to stabilize''\<rparr>"
    by (simp add: Let_def calmWorld_def)
  from wait_and_retry_outcome[OF s, of closedPageWorld] l
  have 2: "attemptRecovery closedPageWorld waitContext =
     \<lparr>success_r = False, updatedPlan = None, newObservation = None,
      message_r = ''Recovery failed: Target closed''\<rparr>"
    by (simp add: Let_def closedPageWorld_def calmWorld_def)
  from wait_and_retry_outcome[OF s, of ?nopage]
  have 3: "attemptRecovery ?nopage waitContext =
     \<lparr>success_r = False, updatedPlan = None, newObservation = None,
      message_r = ''Recovery failed: Page not initialized''\<rparr>"
    by (simp add: Let_def calmWorld_def)
  from wait_and_retry_outcome[OF s, of ?crash] l
  have 4: "attemptRecovery ?crash waitContext =
     \<lparr>success_r = False, updatedPlan = None, newObservation = None,
      message_r = ''Recovery failed: Page crashed''\<rparr>"
    by (simp add: Let_def calmWorld_def)
  from s 1 2 3 4 show ?thesis by (intro conjI)
qed

section \<open>Enrichment of a DetectedBug\<close>

lemma diagnoseBug_fields:
  assumes "diagnoseBug response agentSessionId now observation = Inr b"
  shows "url_b b = url observation \<and>
         screenshots b = (case screenshot observation of None \<Rightarrow> []
                          | Some shot \<Rightarrow> if shot = [] then [] else [shot]) \<and>
         consoleErrors_b b = consoleErrors observation \<and>
         networkErrors_b b = networkErrors observation \<and>
         timestamp_b b = now \<and>
         sessionId b = (case agentSessionId of None \<Rightarrow> [] | Some sid \<Rightarrow> sid)"
  using assms by (auto simp: diagnoseBug_def split: sum.splits)

text \<open>
  C8, as stated, fails for the session identifier: \<open>BugDetector.enrichBug\<close> sets it to
  the empty string (the caller is to set it), whatever the bug carried, so the bug that
  \<open>diagnose\<close> returns has no session identifier.
\<close>

theorem enrichBug_session_counterexample:
  "sessionId (enrichBug (oracleBug\<lparr>sessionId := ''session_20261102_101500''\<rparr>)
                (leadsContext (Error ''Expected outcome not reached'') leadsPage) 5000) \<noteq>
     ''session_20261102_101500'' \<and>
   sessionId (projr (diagnose (\<lambda>u. None) (Inr (oracleBug\<lparr>sessionId := ''session_20261102_101500''\<rparr>))
                       5000 (leadsContext (Error ''Expected outcome not reached'') leadsPage))) = []"
proof -
  have h: "confidence_h (analyzeWithHeuristics (Error ''Expected outcome not reached'') leadsPage) = 0"
    by (simp add: leadsPage_def eval_heur)
  have "diagnose (\<lambda>u. None) (Inr (oracleBug\<lparr>sessionId := ''session_20261102_101500''\<rparr>)) 5000
            (leadsContext (Error ''Expected outcome not reached'') leadsPage) =
        Inr (enrichBug (parseDiagnosis (oracleBug\<lparr>sessionId := ''session_20261102_101500''\<rparr>) 5000)
               (leadsContext (Error ''Expected outcome not reached'') leadsPage) 5000)"
    using h by (simp add: diagnose_def Let_def leadsContext_def claude_diagnoseBug_def
                  CONFIDENCE_THRESHOLD_HIGH_def CONFIDENCE_THRESHOLD_LOW_def)
  then show ?thesis by (simp add: enrichBug_fields)
qed

text \<open>
  C8, amended. A bug returned by \<open>BugDetector.diagnose\<close>, on either path, has the
  observation's URL, its screenshot when there is a non-empty one, its console and
  network errors, the current time, and an empty session identifier. A bug returned by
  \<open>Agent.diagnoseBug\<close> has the same fields from its observation and the agent's session
  identifier (empty when the agent has none); and the bug in a step result is such a
  bug, made from the observation taken after the final attempt.
\<close>

theorem bugs_are_enriched:
  "(diagnose pathname response now context = Inr b \<longrightarrow>
      url_b b = url (observation_c context) \<and>
      screenshots b = (case screenshot (observation_c context) of None \<Rightarrow> []
                       | Some shot \<Rightarrow> if shot = [] then [] else [shot]) \<and>
      consoleErrors_b b = consoleErrors (observation_c context) \<and>
      networkErrors_b b = networkErrors (observation_c context) \<and>
      timestamp_b b = now \<and> sessionId b = []) \<and>
   (diagnoseBug response' agentSessionId now' observation = Inr b' \<longrightarrow>
      url_b b' = url observation \<and>
      screenshots b' = (case screenshot observation of None \<Rightarrow> []
                        | Some shot \<Rightarrow> if shot = [] then [] else [shot]) \<and>
      consoleErrors_b b' = consoleErrors observation \<and>
      networkErrors_b b' = networkErrors observation \<and>
      timestamp_b b' = now' \<and>
      sessionId b' = (case agentSessionId of None \<Rightarrow> [] | Some sid \<Rightarrow> sid)) \<and>
   (executeStep w agentSessionId step = (Inr r, tr) \<and> bug r = Some b'' \<longrightarrow>
      (\<exists>obs. observeAfter w (effectiveMaxAttempts step) = Inr obs \<and>
         url_b b'' = url obs \<and>
         screenshots b'' = (case screenshot obs of None \<Rightarrow> []
                            | Some shot \<Rightarrow> if shot = [] then [] else [shot]) \<and>
         consoleErrors_b b'' = consoleErrors obs \<and>
         networkErrors_b b'' = networkErrors obs \<and>
         timestamp_b b'' = clock w (effectiveMaxAttempts step) \<and>
         sessionId b'' = (case agentSessionId of None \<Rightarrow> [] | Some sid \<Rightarrow> sid)))"
proof -
  have p1: "diagnose pathname response now context = Inr b \<longrightarrow>
      url_b b = url (observation_c context) \<and>
      screenshots b = (case screenshot (observation_c context) of None \<Rightarrow> []
                       | Some shot \<Rightarrow> if shot = [] then [] else [shot]) \<and>
      consoleErrors_b b = consoleErrors (observation_c context) \<and>
      networkErrors_b b = networkErrors (observation_c context) \<and>
      timestamp_b b = now \<and> sessionId b = []"
  proof
    assume "diagnose pathname response now context = Inr b"
    then obtain d where "b = enrichBug d context now" by (auto dest: diagnose_is_enriched)
    then show "url_b b = url (observation_c context) \<and>
      screenshots b = (case screenshot (observation_c context) of None \<Rightarrow> []
                       | Some shot \<Rightarrow> if shot = [] then [] else [shot]) \<and>
      consoleErrors_b b = consoleErrors (observation_c context) \<and>
      networkErrors_b b = networkErrors (observation_c context) \<and>
      timestamp_b b = now \<and> sessionId b = []"
      by (simp add: enrichBug_fields)
  qed
  have p2: "diagnoseBug response' agentSessionId now' observation = Inr b' \<longrightarrow>
      url_b b' = url observation \<and>
      screenshots b' = (case screenshot observation of None \<Rightarrow> []
                        | Some shot \<Rightarrow> if shot = [] then [] else [shot]) \<and>
      consoleErrors_b b' = consoleErrors observation \<and>
      networkErrors_b b' = networkErrors observation \<and>
      timestamp_b b' = now' \<and>
      sessionId b' = (case agentSessionId of None \<Rightarrow> [] | Some sid \<Rightarrow> sid)"
    by (rule impI) (rule diagnoseBug_fields)
  let ?m = "effectiveMaxAttempts step"
  have p3: "executeStep w agentSessionId step = (Inr r, tr) \<and> bug r = Some b'' \<longrightarrow>
      (\<exists>obs. observeAfter w ?m = Inr obs \<and>
         url_b b'' = url obs \<and>
         screenshots b'' = (case screenshot obs of None \<Rightarrow> []
                            | Some shot \<Rightarrow> if shot = [] then [] else [shot]) \<and>
         consoleErrors_b b'' = consoleErrors obs \<and>
         networkErrors_b b'' = networkErrors obs \<and>
         timestamp_b b'' = clock w ?m \<and>
         sessionId b'' = (case agentSessionId of None \<Rightarrow> [] | Some sid \<Rightarrow> sid))"
  proof
    assume a: "executeStep w agentSessionId step = (Inr r, tr) \<and> bug r = Some b''"
    then have l: "attemptLoop w agentSessionId step ?m 0 None None freshTrace = (Inr r, tr)"
      by (simp add: executeStep_def)
    from loop_success[OF l] a have ns: "\<not> success r" by auto
    have pos: "0 < ?m"
    proof (rule ccontr)
      assume "\<not> 0 < ?m"
      from attemptLoop_exit[OF this, of w agentSessionId step None None freshTrace] l a
      show False by auto
    qed
    from loop_failure[OF l ns pos] a obtain obs where
      o: "observeAfter w ?m = Inr obs" and
      d: "diagnoseBug (claudeDiagnosis w ?m) agentSessionId (clock w ?m) obs = Inr b''"
      by auto
    from diagnoseBug_fields[OF d] o
    show "\<exists>obs. observeAfter w ?m = Inr obs \<and>
         url_b b'' = url obs \<and>
         screenshots b'' = (case screenshot obs of None \<Rightarrow> []
                            | Some shot \<Rightarrow> if shot = [] then [] else [shot]) \<and>
         consoleErrors_b b'' = consoleErrors obs \<and>
         networkErrors_b b'' = networkErrors obs \<and>
         timestamp_b b'' = clock w ?m \<and>
         sessionId b'' = (case agentSessionId of None \<Rightarrow> [] | Some sid \<Rightarrow> sid)"
      by blast
  qed
  from p1 p2 p3 show ?thesis by (intro conjI)
qed

text \<open>
  C8, amended, at concrete inputs: the heuristic bug for the broken leads page, and the
  bug of the step whose three attempts fail in session \<open>session_20261102_101500\<close>.
\<close>

theorem bugs_are_enriched_witness:
  "url_b (projr (diagnose (\<lambda>u. None) (Inl (Error ''no answer'')) 5000
                   (leadsContext (Error ''boom'') brokenPage))) = ''http://localhost:5173/leads'' \<and>
   sessionId (projr (diagnose (\<lambda>u. None) (Inl (Error ''no answer'')) 5000
                   (leadsContext (Error ''boom'') brokenPage))) = [] \<and>
   url_b (diagnosedBug (Some ''session_20261102_101500'')) = ''http://localhost:5173/leads'' \<and>
   screenshots (diagnosedBug (Some ''session_20261102_101500'')) = [''iVBORw0KGgo=''] \<and>
   timestamp_b (diagnosedBug (Some ''session_20261102_101500'')) = 5000 \<and>
   sessionId (diagnosedBug (Some ''session_20261102_101500'')) = ''session_20261102_101500''"
proof -
  let ?c = "leadsContext (Error ''boom'') brokenPage"
  let ?s = "Some ''session_20261102_101500''"
  have h: "confidence_h (analyzeWithHeuristics (Error ''boom'') brokenPage) = 5 / 6"
    by (simp add: brokenPage_def leadsPage_def eval_heur)
  have c: "error_c ?c = Error ''boom''" "observation_c ?c = brokenPage"
    by (simp_all add: leadsContext_def)
  have t: "CONFIDENCE_THRESHOLD_HIGH \<le> confidence_h (analyzeWithHeuristics (error_c ?c) (observation_c ?c))"
    using h c by (simp add: CONFIDENCE_THRESHOLD_HIGH_def)
  have d: "diagnose (\<lambda>u. None) (Inl (Error ''no answer'')) 5000 ?c =
      Inr (projr (diagnose (\<lambda>u. None) (Inl (Error ''no answer'')) 5000 ?c))"
    by (simp add: diagnose_heuristic_path[OF t])
  have x: "executeStep stuckWorld ?s createLead =
     (Inr \<lparr>success = False, attempts = 3,
           error = Some (Error ''Expected outcome not reached''),
           bug = Some (diagnosedBug ?s)\<rparr>,
      \<lparr>healingAttempts = 2,
       healed = [(1, wait_and_retry), (2, screenshot_analysis)],
       diagnosed = [1, 2, 3]\<rparr>) \<and>
     bug \<lparr>success = False, attempts = 3,
           error = Some (Error ''Expected outcome not reached''),
           bug = Some (diagnosedBug ?s)\<rparr> = Some (diagnosedBug ?s)"
    by (simp add: stuckWorld_run)
  have o: "observeAfter stuckWorld (effectiveMaxAttempts createLead) = Inr leadsPage"
          "clock stuckWorld (effectiveMaxAttempts createLead) = 5000"
    by (simp_all add: stuckWorld_def)
  have p1: "diagnose (\<lambda>u. None) (Inl (Error ''no answer'')) 5000 ?c =
        Inr (projr (diagnose (\<lambda>u. None) (Inl (Error ''no answer'')) 5000 ?c)) \<longrightarrow>
      url_b (projr (diagnose (\<lambda>u. None) (Inl (Error ''no answer'')) 5000 ?c)) =
        url (observation_c ?c) \<and>
      screenshots (projr (diagnose (\<lambda>u. None) (Inl (Error ''no answer'')) 5000 ?c)) =
        (case screenshot (observation_c ?c) of None \<Rightarrow> []
         | Some shot \<Rightarrow> if shot = [] then [] else [shot]) \<and>
      consoleErrors_b (projr (diagnose (\<lambda>u. None) (Inl (Error ''no answer'')) 5000 ?c)) =
        consoleErrors (observation_c ?c) \<and>
      networkErrors_b (projr (diagnose (\<lambda>u. None) (Inl (Error ''no answer'')) 5000 ?c)) =
        networkErrors (observation_c ?c) \<and>
      timestamp_b (projr (diagnose (\<lambda>u. None) (Inl (Error ''no answer'')) 5000 ?c)) = 5000 \<and>
      sessionId (projr (diagnose (\<lambda>u. None) (Inl (Error ''no answer'')) 5000 ?c)) = []"
    by (rule bugs_are_enriched[THEN conjunct1])
  have p3: "executeStep stuckWorld ?s createLead =
       (Inr \<lparr>success = False, attempts = 3,
           error = Some (Error ''Expected outcome not reached''),
           bug = Some (diagnosedBug ?s)\<rparr>,
        \<lparr>healingAttempts = 2,
         healed = [(1, wait_and_retry), (2, screenshot_analysis)],
         diagnosed = [1, 2, 3]\<rparr>) \<and>
       bug \<lparr>success = False, attempts = 3,
           error = Some (Error ''Expected outcome not reached''),
           bug = Some (diagnosedBug ?s)\<rparr> = Some (diagnosedBug ?s) \<longrightarrow>
      (\<exists>obs. observeAfter stuckWorld (effectiveMaxAttempts createLead) = Inr obs \<and>
         url_b (diagnosedBug ?s) = url obs \<and>
         screenshots (diagnosedBug ?s) = (case screenshot obs of None \<Rightarrow> []
                            | Some shot \<Rightarrow> if shot = [] then [] else [shot]) \<and>
         consoleErrors_b (diagnosedBug ?s) = consoleErrors obs \<and>
         networkErrors_b (diagnosedBug ?s) = networkErrors obs \<and>
         timestamp_b (diagnosedBug ?s) = clock stuckWorld (effectiveMaxAttempts createLead) \<and>
         sessionId (diagnosedBug ?s) = (case ?s of None \<Rightarrow> [] | Some sid \<Rightarrow> sid))"
    by (rule bugs_are_enriched[THEN conjunct2, THEN conjunct2])
  from p1 d c have r1:
    "url_b (projr (diagnose (\<lambda>u. None) (Inl (Error ''no answer'')) 5000 ?c)) = ''http://localhost:5173/leads''"
    "sessionId (projr (diagnose (\<lambda>u. None) (Inl (Error ''no answer'')) 5000 ?c)) = []"
    by (simp_all add: brokenPage_def leadsPage_def)
  from p3 x o have r3:
    "url_b (diagnosedBug ?s) = ''http://localhost:5173/leads''"
    "screenshots (diagnosedBug ?s) = [''iVBORw0KGgo='']"
    "timestamp_b (diagnosedBug ?s) = 5000"
    "sessionId (diagnosedBug ?s) = ''session_20261102_101500''"
    by (auto simp: leadsPage_def)
  from r1 r3 show ?thesis by simp
qed

end
